theory Spec2Isabelle
  imports Complex_Main "HOL-Library.Log_Nat"
begin

section \<open>Python values, formatted text, exceptions\<close>

text \<open>
  A pet or player record is a Python \<^verbatim>\<open>dict\<close> from field names to arbitrary values.
  The library never checks a field's type, so the model keeps the dynamic type of every
  value: \<^verbatim>\<open>None\<close>, booleans, unbounded integers, text, lists and nested dicts (the
  JSON types; a \<^verbatim>\<open>float\<close> stored in a field is outside the model, floats occur only
  as intermediate results of the percentage computation below). A dict is an association
  list in insertion order; \<^verbatim>\<open>d.get(k, default)\<close> reads the first binding of \<open>k\<close>.
  Text is a list of bytes (UTF-8), so a character outside ASCII is written as its bytes.
\<close>

datatype pyval =
    PNone
  | PBool bool
  | PInt int
  | PStr string
  | PList "pyval list"
  | PDict "(string \<times> pyval) list"

type_synonym pydict = "(string \<times> pyval) list"

definition dict_get :: "pydict \<Rightarrow> string \<Rightarrow> pyval \<Rightarrow> pyval" where
  "dict_get d k dflt = (case map_of d k of None \<Rightarrow> dflt | Some v \<Rightarrow> v)"

datatype exn =
    TypeError
  | ValueError
  | ZeroDivisionError
  | OverflowError
  | FileNotFoundError
  | IsADirectoryError
  | NotADirectoryError
  | PermissionError
  | OSError
  | UnicodeEncodeError
  | RecursionError

text \<open>
  An f-string is kept as the list of its pieces: the literal text of the template, and for
  each \<^verbatim>\<open>{expr}\<close> the value that Python formats there (\<open>Fmt v\<close> stands for the text
  \<^verbatim>\<open>format(v)\<close>, \<open>FmtExn e\<close> for the message of a caught exception, \<open>Base64 bs\<close> for
  \<^verbatim>\<open>base64.b64encode(bs).decode("utf-8")\<close>). Concatenation of strings is \<open>@\<close>.
\<close>

datatype piece = Lit string | Fmt pyval | FmtExn exn | Base64 string

type_synonym fstring = "piece list"

text \<open>\<^verbatim>\<open>MODE\<close> is decided once, when the module is imported.\<close>

datatype mode = JUPYTER | TERMINAL

subsection \<open>Numbers\<close>

text \<open>
  Comparison and arithmetic with an integer literal succeed on \<^verbatim>\<open>int\<close> and
  \<^verbatim>\<open>bool\<close> (a subclass of \<^verbatim>\<open>int\<close>) and raise \<^verbatim>\<open>TypeError\<close> on every other
  value of the model.
\<close>

fun as_int :: "pyval \<Rightarrow> int option" where
  "as_int (PInt i) = Some i"
| "as_int (PBool b) = Some (if b then 1 else 0)"
| "as_int _ = None"

definition py_less_int :: "pyval \<Rightarrow> int \<Rightarrow> exn + bool" where
  \<comment> \<open>\<^verbatim>\<open>value < n\<close>\<close>
  "py_less_int v n = (case as_int v of None \<Rightarrow> Inl TypeError | Some i \<Rightarrow> Inr (i < n))"

definition py_greater_int :: "pyval \<Rightarrow> int \<Rightarrow> exn + bool" where
  \<comment> \<open>\<^verbatim>\<open>value > n\<close>\<close>
  "py_greater_int v n = (case as_int v of None \<Rightarrow> Inl TypeError | Some i \<Rightarrow> Inr (n < i))"

definition py_min_int :: "pyval \<Rightarrow> int \<Rightarrow> exn + pyval" where
  \<comment> \<open>\<^verbatim>\<open>min(value, n)\<close>: the first argument unless the second is smaller\<close>
  "py_min_int v n = (case as_int v of None \<Rightarrow> Inl TypeError
                     | Some i \<Rightarrow> Inr (if n < i then PInt n else v))"

definition py_rsub_int :: "int \<Rightarrow> pyval \<Rightarrow> exn + pyval" where
  \<comment> \<open>\<^verbatim>\<open>n - value\<close>\<close>
  "py_rsub_int n v = (case as_int v of None \<Rightarrow> Inl TypeError | Some i \<Rightarrow> Inr (PInt (n - i)))"

text \<open>
  True division of two integers gives a \<^verbatim>\<open>float\<close>: the exact quotient rounded to the
  nearest binary64 number (ties to even), \<^verbatim>\<open>OverflowError\<close> when that is beyond the
  largest finite one. A float is modelled by the rational it denotes, or an infinity.
  \<open>ilog2 a\<close> is the binary exponent of a positive rational: \<open>2 powi e \<le> a < 2 powi (e + 1)\<close>.
\<close>

datatype pyfloat = Finite rat | PosInf | NegInf

definition ilog2 :: "rat \<Rightarrow> int" where
  "ilog2 a = (let (n, d) = quotient_of a; k = bitlen n - bitlen d
              in if 2 powi k \<le> a then k else k - 1)"

definition round_half_even :: "rat \<Rightarrow> int" where
  "round_half_even x =
     (let f = \<lfloor>x\<rfloor>; r = x - of_int f
      in if r < 1 / 2 then f else if 1 / 2 < r then f + 1 else if even f then f else f + 1)"

definition ulp_exp :: "rat \<Rightarrow> int" where
  \<comment> \<open>the exponent of the spacing of the floats around a positive rational: 53 significant
      bits, and below \<open>2 powi (- 1022)\<close> the spacing stays \<open>2 powi (- 1074)\<close>\<close>
  "ulp_exp a = max (ilog2 a - 52) (- 1074)"

definition round_binary64 :: "rat \<Rightarrow> rat" where
  "round_binary64 x =
     (if x = 0 then 0
      else let a = \<bar>x\<bar>; p = ulp_exp a;
               m = round_half_even (a / 2 powi p)
           in sgn x * of_int m * 2 powi p)"

definition float_max :: rat where
  "float_max = (2 ^ 53 - 1) * 2 ^ 971"

definition int_truediv :: "int \<Rightarrow> int \<Rightarrow> exn + rat" where
  \<comment> \<open>\<^verbatim>\<open>a / b\<close> on integers\<close>
  "int_truediv a b =
     (if b = 0 then Inl ZeroDivisionError
      else let r = round_binary64 (of_int a / of_int b)
           in if float_max < \<bar>r\<bar> then Inl OverflowError else Inr r)"

definition py_truediv :: "pyval \<Rightarrow> pyval \<Rightarrow> exn + rat" where
  \<comment> \<open>\<^verbatim>\<open>hp / max_hp\<close>\<close>
  "py_truediv x y =
     (case (as_int x, as_int y) of
        (Some a, Some b) \<Rightarrow> int_truediv a b
      | _ \<Rightarrow> Inl TypeError)"

definition float_mul :: "rat \<Rightarrow> rat \<Rightarrow> pyfloat" where
  \<comment> \<open>the product of two finite floats: rounded, an infinity on overflow\<close>
  "float_mul x y =
     (let r = round_binary64 (x * y)
      in if float_max < r then PosInf else if r < - float_max then NegInf else Finite r)"

definition py_int :: "pyfloat \<Rightarrow> exn + int" where
  \<comment> \<open>\<^verbatim>\<open>int(f)\<close> truncates towards zero\<close>
  "py_int f = (case f of
                 Finite r \<Rightarrow> Inr (if 0 \<le> r then \<lfloor>r\<rfloor> else \<lceil>r\<rceil>)
               | PosInf \<Rightarrow> Inl OverflowError
               | NegInf \<Rightarrow> Inl OverflowError)"

definition percent_of :: "pyval \<Rightarrow> pyval \<Rightarrow> exn + int" where
  \<comment> \<open>\<^verbatim>\<open>int(hp / max_hp * 100)\<close>\<close>
  "percent_of hp max_hp =
     (case py_truediv hp max_hp of
        Inl e \<Rightarrow> Inl e
      | Inr q \<Rightarrow> py_int (float_mul q 100))"

section \<open>The world the library acts on\<close>

text \<open>
  Records are passed by reference: the heap holds the dict objects of the caller.

  The file system says what is at a path (a path is the list of components handed to
  \<^verbatim>\<open>os.path.join\<close>, a plain file name is one component):

    \<^item> \<open>Regular readable writable content\<close>: a regular file, with the rights of the process
      on it;
    \<^item> \<open>Directory\<close>;
    \<^item> \<open>Special answer\<close>: a device, pipe or socket. \<open>answer\<close> is what opening and reading it
      gives; it can be opened for writing and keeps nothing of what is written
      (\<^verbatim>\<open>/dev/null\<close>);
    \<^item> \<open>Missing raised create\<close>: nothing is there. \<open>raised\<close> is the exception of
      \<^verbatim>\<open>open(p, 'r')\<close>: \<^verbatim>\<open>FileNotFoundError\<close>, or \<^verbatim>\<open>NotADirectoryError\<close> when a
      component of the path is a file, or \<^verbatim>\<open>ValueError\<close> for a name that \<^verbatim>\<open>open\<close>
      does not take. \<open>create\<close> is what \<^verbatim>\<open>open(p, 'w')\<close> does: the exception it raises
      (no parent directory, no right to write there), or whether the file it creates can be
      read back by the process.

  \<open>write_fault\<close> is the I/O error, if any, that interrupts the writing of a text to a path or
  the closing of the file (a full disk), with the number of bytes that reached the file.

  \<open>stdout_fault\<close> is the console: the exception, if any, that \<^verbatim>\<open>print\<close> raises when it is
  handed a line, \<^verbatim>\<open>UnicodeEncodeError\<close> when the encoding of \<^verbatim>\<open>sys.stdout\<close> lacks a
  character of the line. Nothing of a refused line is printed.

  \<open>int_max_str_digits\<close> is \<^verbatim>\<open>sys.get_int_max_str_digits()\<close>: formatting an integer of more
  decimal digits raises \<^verbatim>\<open>ValueError\<close> (4300 by default, 0 for no limit).
  \<open>repr_fault\<close> is the exception, if any, raised when a list or a dict is formatted
  (\<^verbatim>\<open>RecursionError\<close> for a nesting too deep for the interpreter's stack,
  \<^verbatim>\<open>ValueError\<close> for an oversized integer inside).

  \<open>audio_fault\<close> is the answer of the notebook's display surface when it is handed an audio
  resource. \<open>out\<close> is everything printed or displayed so far.
\<close>

type_synonym addr = nat

type_synonym path = "fstring list"

datatype node =
    Regular bool bool string
  | Directory
  | Special "exn + string"
  | Missing exn "exn + bool"

datatype event = Print fstring | Display_HTML fstring | Display_Audio string

record world =
  heap :: "addr \<Rightarrow> pydict"
  nodes :: "path \<Rightarrow> node"
  write_fault :: "path \<Rightarrow> (exn \<times> nat) option"
  stdout_fault :: "fstring \<Rightarrow> exn option"
  int_max_str_digits :: nat
  repr_fault :: "pyval \<Rightarrow> exn option"
  audio_fault :: "string \<Rightarrow> exn option"
  out :: "event list"

text \<open>
  \<open>py_print s\<close> is the effect of a \<^verbatim>\<open>print\<close> that the console accepts; \<open>print_line s\<close>
  is \<^verbatim>\<open>print\<close> with the console's answer. \<open>save_pet\<close>, \<open>load_pet\<close>, \<open>play_sound\<close> and
  \<open>render_hud\<close> below print with \<open>print_line\<close> and format the fields of a record with
  \<open>format_fault\<close>. The stat panel, the pet image and the dashboard are modelled on a console
  that accepts every line and for fields that format: they print with \<open>py_print\<close>.
\<close>

definition py_print :: "fstring \<Rightarrow> world \<Rightarrow> world" where
  "py_print s w = w\<lparr>out := out w @ [Print s]\<rparr>"

definition print_line :: "fstring \<Rightarrow> world \<Rightarrow> (exn + unit) \<times> world" where
  "print_line s w =
     (case stdout_fault w s of
        Some e \<Rightarrow> (Inl e, w)
      | None \<Rightarrow> (Inr (), py_print s w))"

definition format_fault :: "world \<Rightarrow> pyval \<Rightarrow> exn option" where
  \<comment> \<open>the exception of \<^verbatim>\<open>format(v)\<close>, the text of \<^verbatim>\<open>{v}\<close> in an f-string\<close>
  "format_fault w v =
     (case v of
        PInt i \<Rightarrow> if 0 < int_max_str_digits w \<and> 10 ^ int_max_str_digits w \<le> \<bar>i\<bar>
                  then Some ValueError else None
      | PList xs \<Rightarrow> repr_fault w v
      | PDict kvs \<Rightarrow> repr_fault w v
      | _ \<Rightarrow> None)"

fun format_faults :: "world \<Rightarrow> pyval list \<Rightarrow> exn option" where
  \<comment> \<open>the values of an f-string are formatted from left to right\<close>
  "format_faults w [] = None"
| "format_faults w (v # vs) =
     (case format_fault w v of Some e \<Rightarrow> Some e | None \<Rightarrow> format_faults w vs)"

definition display :: "event \<Rightarrow> world \<Rightarrow> world" where
  "display obj w = w\<lparr>out := out w @ [obj]\<rparr>"

definition path_exists :: "world \<Rightarrow> path \<Rightarrow> bool" where
  "path_exists w p = (case nodes w p of Missing raised create \<Rightarrow> False | _ \<Rightarrow> True)"

definition open_read :: "world \<Rightarrow> path \<Rightarrow> exn + string" where
  \<comment> \<open>\<^verbatim>\<open>open(p, 'r')\<close> or \<^verbatim>\<open>open(p, 'rb')\<close>, then \<^verbatim>\<open>read()\<close>\<close>
  "open_read w p =
     (case nodes w p of
        Regular readable writable content \<Rightarrow>
          if readable then Inr content else Inl PermissionError
      | Directory \<Rightarrow> Inl IsADirectoryError
      | Special answer \<Rightarrow> answer
      | Missing raised create \<Rightarrow> Inl raised)"

definition open_write :: "world \<Rightarrow> path \<Rightarrow> exn + world" where
  \<comment> \<open>\<^verbatim>\<open>open(p, 'w')\<close> empties a regular file, or creates one where nothing is\<close>
  "open_write w p =
     (case nodes w p of
        Regular readable writable content \<Rightarrow>
          if writable then Inr (w\<lparr>nodes := (nodes w)(p := Regular readable writable [])\<rparr>)
          else Inl PermissionError
      | Directory \<Rightarrow> Inl IsADirectoryError
      | Special answer \<Rightarrow> Inr w
      | Missing raised create \<Rightarrow>
          (case create of
             Inl e \<Rightarrow> Inl e
           | Inr readable \<Rightarrow> Inr (w\<lparr>nodes := (nodes w)(p := Regular readable True [])\<rparr>)))"

definition write_text :: "path \<Rightarrow> string \<Rightarrow> world \<Rightarrow> exn option \<times> world" where
  \<comment> \<open>the text is written to the open file and the file is closed\<close>
  "write_text p text w =
     (case nodes w p of
        Regular readable writable content \<Rightarrow>
          (case write_fault w p of
             None \<Rightarrow> (None, w\<lparr>nodes := (nodes w)(p := Regular readable writable text)\<rparr>)
           | Some (e, n) \<Rightarrow>
               (Some e, w\<lparr>nodes := (nodes w)(p := Regular readable writable (take n text))\<rparr>))
      | _ \<Rightarrow> (map_option fst (write_fault w p), w))"

section \<open>Constants and templates of \<^verbatim>\<open>pet_lib.py\<close> (v5.0)\<close>

definition ASSETS_DIR :: path where
  "ASSETS_DIR = [[Lit ''assets''], [Lit ''images'']]"

definition SOUND_LIBRARY :: "(string \<times> string) list" where
  "SOUND_LIBRARY =
     [(''attack'', ''https://commondatastorage.googleapis.com/codeskulptor-assets/Epoq-Lepidoptera.ogg''),
      (''hit'', ''https://commondatastorage.googleapis.com/codeskulptor-assets/week7-brrring.m4a''),
      (''level_up'', ''https://commondatastorage.googleapis.com/codeskulptor-demos/riceracer_assets/fx/win.ogg''),
      (''game_over'', ''https://commondatastorage.googleapis.com/codeskulptor-assets/Evillaugh.ogg''),
      (''bgm'', ''https://commondatastorage.googleapis.com/codeskulptor-demos/pyman_assets/ateapill.ogg''),
      (''heal'', ''https://commondatastorage.googleapis.com/codeskulptor-demos/riceracer_assets/fx/engine-1.ogg'')]"

text \<open>The f-string templates, each with the source's text and line breaks.\<close>

definition bar_html :: "string \<Rightarrow> pyval \<Rightarrow> string \<Rightarrow> pyval \<Rightarrow> fstring" where
  \<open>bar_html label v color width =
     [Lit (''\<newline>'' @
          ''        <div style="margin-bottom: 5px;">\<newline>'' @
          ''            <strong>''),
      Fmt (PStr label),
      Lit ('':</strong> ''),
      Fmt v,
      Lit (''/100\<newline>'' @
          ''            <div style="background-color: #ddd; border-radius: 5px; height: 10px; width: 100%;">\<newline>'' @
          ''                <div style="background-color: ''),
      Fmt (PStr color),
      Lit (''; width: ''),
      Fmt width,
      Lit (''%; height: 100%; border-radius: 5px;"></div>\<newline>'' @
          ''            </div>\<newline>'' @
          ''        </div>\<newline>'' @
          ''        '')]\<close>

definition stats_title :: "pyval \<Rightarrow> fstring" where
  \<open>stats_title name =
     [Lit (''<h3 style="margin: 0 0 10px 0; text-align: center;">'' @ [CHR 0xF0, CHR 0x9F, CHR 0x8D, CHR 0xB1] @ '' ''),
      Fmt name,
      Lit (''</h3>'')]\<close>

definition stats_container :: "fstring \<Rightarrow> fstring" where
  \<open>stats_container content_html =
     [Lit (''\<newline>'' @
          ''    <div style="border: 2px solid #333; border-radius: 10px; padding: 10px; width: 300px; background-color: #f0f0f0; font-family: Arial, sans-serif;">\<newline>'' @
          ''        '')] @
     content_html @
     [Lit (''\<newline>'' @
          ''    </div>\<newline>'' @
          ''    '')]\<close>

definition image_html :: "fstring \<Rightarrow> pyval \<Rightarrow> fstring" where
  \<open>image_html img_src width =
     [Lit (''\<newline>'' @
          ''    <div style="display: flex; justify-content: center; align-items: center; width: ''),
      Fmt width,
      Lit (''px; height: ''),
      Fmt width,
      Lit (''px; overflow: hidden;">\<newline>'' @
          ''        <img src="'')] @
     img_src @
     [Lit (''" style="max-width: 100%; max-height: 100%; object-fit: contain;">\<newline>'' @
          ''    </div>\<newline>'' @
          ''    '')]\<close>

definition hud_html :: "pyval \<Rightarrow> string \<Rightarrow> int \<Rightarrow> pyval \<Rightarrow> pyval \<Rightarrow> pyval \<Rightarrow> fstring" where
  \<open>hud_html name hp_color hp_percent hp max_hp gold =
     [Lit (''\<newline>'' @
          ''    <div style="background: rgba(0,0,0,0.8); color: white; padding: 10px; border-radius: 10px; display: flex; justify-content: space-between; align-items: center; width: 100%; max-width: 600px;">\<newline>'' @
          ''        <div style="font-weight: bold; font-size: 1.2em;">'' @ [CHR 0xF0, CHR 0x9F, CHR 0x91, CHR 0xA4] @ '' ''),
      Fmt name,
      Lit (''</div>\<newline>'' @
          ''        <div style="flex-grow: 1; margin: 0 20px;">\<newline>'' @
          ''            <div style="background: #333; height: 15px; border-radius: 10px; overflow: hidden;">\<newline>'' @
          ''                <div style="background: ''),
      Fmt (PStr hp_color),
      Lit (''; width: ''),
      Fmt (PInt hp_percent),
      Lit (''%; height: 100%;"></div>\<newline>'' @
          ''            </div>\<newline>'' @
          ''            <div style="font-size: 0.8em; text-align: center;">HP: ''),
      Fmt hp,
      Lit (''/''),
      Fmt max_hp,
      Lit (''</div>\<newline>'' @
          ''        </div>\<newline>'' @
          ''        <div style="color: gold;">'' @ [CHR 0xF0, CHR 0x9F, CHR 0x92, CHR 0xB0] @ '' ''),
      Fmt gold,
      Lit ('' G</div>\<newline>'' @
          ''    </div>\<newline>'' @
          ''    '')]\<close>

definition img_tag_file :: "string \<Rightarrow> fstring" where
  \<open>img_tag_file content =
     [Lit (''<img src="data:image/png;base64,''),
      Base64 content,
      Lit (''" style="height: 80px; width: 80px; object-fit: contain;">'')]\<close>

definition img_tag_placeholder :: "pyval \<Rightarrow> fstring" where
  \<open>img_tag_placeholder mood =
     [Lit (''<div style="height: 80px; width: 80px; background: #ccc; display: flex; align-items: center; justify-content: center;">''),
      Fmt mood,
      Lit (''</div>'')]\<close>

definition card_html :: "string \<Rightarrow> string \<Rightarrow> fstring \<Rightarrow> pyval \<Rightarrow> string \<Rightarrow> int \<Rightarrow> pyval \<Rightarrow> pyval \<Rightarrow> fstring" where
  \<open>card_html border bg img_tag name hp_color hp_percent hp max_hp =
     [Lit (''\<newline>'' @
          ''        <div style="border: ''),
      Fmt (PStr border),
      Lit (''; background: ''),
      Fmt (PStr bg),
      Lit (''; border-radius: 10px; padding: 10px; width: 45%; display: flex; align-items: center;">\<newline>'' @
          ''            <div style="margin-right: 15px;">'')] @
     img_tag @
     [Lit (''</div>\<newline>'' @
          ''            <div style="width: 100%;">\<newline>'' @
          ''                <div style="font-weight: bold; font-size: 1.1em; margin-bottom: 5px;">''),
      Fmt name,
      Lit (''</div>\<newline>'' @
          ''                <div style="background: #444; height: 10px; border-radius: 5px; width: 100%;">\<newline>'' @
          ''                    <div style="background: ''),
      Fmt (PStr hp_color),
      Lit (''; width: ''),
      Fmt (PInt hp_percent),
      Lit (''%; height: 100%; border-radius: 5px;"></div>\<newline>'' @
          ''                </div>\<newline>'' @
          ''                <div style="font-size: 0.8em; margin-top: 2px;">HP: ''),
      Fmt hp,
      Lit (''/''),
      Fmt max_hp,
      Lit (''</div>\<newline>'' @
          ''            </div>\<newline>'' @
          ''        </div>\<newline>'' @
          ''        '')]\<close>

definition empty_slot :: "fstring" where
  \<open>empty_slot =
     [Lit (''<div style="width: 45%;"></div>'')]\<close>

definition log_entry :: "string \<Rightarrow> fstring" where
  \<open>log_entry msg =
     [Lit (''<div style="border-bottom: 1px solid #eee; padding: 4px;">''),
      Fmt (PStr msg),
      Lit (''</div>'')]\<close>

definition dashboard_html :: "fstring \<Rightarrow> fstring \<Rightarrow> fstring \<Rightarrow> fstring" where
  \<open>dashboard_html player_card enemy_card log_html =
     [Lit (''\<newline>'' @
          ''    <div style="font-family: Arial, sans-serif; max-width: 600px; border: 1px solid #ccc; padding: 10px; border-radius: 10px; background: #fff;">\<newline>'' @
          ''        <div style="display: flex; justify-content: space-between; margin-bottom: 15px;">\<newline>'' @
          ''            '')] @
     player_card @
     [Lit (''\<newline>'' @
          ''            '')] @
     enemy_card @
     [Lit (''\<newline>'' @
          ''        </div>\<newline>'' @
          ''        <div style="background: #f9f9f9; padding: 10px; border-radius: 5px; height: 120px; overflow-y: auto; font-size: 0.9em;">\<newline>'' @
          ''            <strong>'' @ [CHR 0xF0, CHR 0x9F, CHR 0x93, CHR 0x9C] @ '' Battle Log</strong>\<newline>'' @
          ''            '')] @
     log_html @
     [Lit (''\<newline>'' @
          ''        </div>\<newline>'' @
          ''    </div>\<newline>'' @
          ''    '')]\<close>

definition saved_msg :: "string \<Rightarrow> fstring" where
  \<open>saved_msg filename =
     [Lit ([CHR 0xE2, CHR 0x9C, CHR 0x85] @ '' '' @ [CHR 0xE5, CHR 0xAF, CHR 0xB5, CHR 0xE7, CHR 0x89, CHR 0xA9, CHR 0xE8, CHR 0xB3, CHR 0x87, CHR 0xE6, CHR 0x96, CHR 0x99, CHR 0xE5, CHR 0xB7, CHR 0xB2, CHR 0xE5, CHR 0x84, CHR 0xB2, CHR 0xE5, CHR 0xAD, CHR 0x98, CHR 0xE5, CHR 0x88, CHR 0xB0] @ '' ''),
      Fmt (PStr filename)]\<close>

definition save_failed_msg :: "exn \<Rightarrow> fstring" where
  \<open>save_failed_msg e =
     [Lit ([CHR 0xE2, CHR 0x9D, CHR 0x8C] @ '' '' @ [CHR 0xE5, CHR 0x84, CHR 0xB2, CHR 0xE5, CHR 0xAD, CHR 0x98, CHR 0xE5, CHR 0xA4, CHR 0xB1, CHR 0xE6, CHR 0x95, CHR 0x97] @ '': ''),
      FmtExn e]\<close>

definition loaded_msg :: "string \<Rightarrow> fstring" where
  \<open>loaded_msg filename =
     [Lit ([CHR 0xE2, CHR 0x9C, CHR 0x85] @ '' '' @ [CHR 0xE6, CHR 0x88, CHR 0x90, CHR 0xE5, CHR 0x8A, CHR 0x9F, CHR 0xE8, CHR 0xAE, CHR 0x80, CHR 0xE5, CHR 0x8F, CHR 0x96] @ '' ''),
      Fmt (PStr filename)]\<close>

definition not_found_msg :: "string \<Rightarrow> fstring" where
  \<open>not_found_msg filename =
     [Lit ([CHR 0xE2, CHR 0x9A, CHR 0xA0, CHR 0xEF, CHR 0xB8, CHR 0x8F] @ '' '' @ [CHR 0xE6, CHR 0x89, CHR 0xBE, CHR 0xE4, CHR 0xB8, CHR 0x8D, CHR 0xE5, CHR 0x88, CHR 0xB0, CHR 0xE5, CHR 0xAD, CHR 0x98, CHR 0xE6, CHR 0xAA, CHR 0x94] @ '' ''),
      Fmt (PStr filename)]\<close>

definition load_failed_msg :: "exn \<Rightarrow> fstring" where
  \<open>load_failed_msg e =
     [Lit ([CHR 0xE2, CHR 0x9D, CHR 0x8C] @ '' '' @ [CHR 0xE8, CHR 0xAE, CHR 0x80, CHR 0xE5, CHR 0x8F, CHR 0x96, CHR 0xE5, CHR 0xA4, CHR 0xB1, CHR 0xE6, CHR 0x95, CHR 0x97] @ '': ''),
      FmtExn e]\<close>

definition unknown_sound_msg :: "string \<Rightarrow> fstring" where
  \<open>unknown_sound_msg sound_name =
     [Lit ([CHR 0xE2, CHR 0x9A, CHR 0xA0, CHR 0xEF, CHR 0xB8, CHR 0x8F] @ '' Unknown sound: ''),
      Fmt (PStr sound_name)]\<close>

definition sound_failed_msg :: "exn \<Rightarrow> fstring" where
  \<open>sound_failed_msg e =
     [Lit ([CHR 0xE2, CHR 0x9D, CHR 0x8C] @ '' Failed to play sound: ''),
      FmtExn e]\<close>

definition image_failed_msg :: "exn \<Rightarrow> fstring" where
  \<open>image_failed_msg e =
     [Lit (''Error loading image: ''),
      FmtExn e]\<close>

section \<open>Utility functions\<close>

definition get_img_path :: "world \<Rightarrow> fstring \<Rightarrow> path option" where
  "get_img_path w filename =
     (let path = ASSETS_DIR @ [filename]
      in if \<not> path_exists w path then
           (let path = [[Lit ''..''], [Lit ''..'']] @ ASSETS_DIR @ [filename]
            in if \<not> path_exists w path then None else Some path)
         else Some path)"

definition render_html :: "mode \<Rightarrow> fstring \<Rightarrow> world \<Rightarrow> world" where
  "render_html MODE html_content w =
     (if MODE = JUPYTER then display (Display_HTML html_content) w else w)"

definition get_bar_color :: "pyval \<Rightarrow> exn + string" where
  "get_bar_color v =
     (case py_less_int v 20 of
        Inl e \<Rightarrow> Inl e
      | Inr True \<Rightarrow> Inr ''#ff4444''
      | Inr False \<Rightarrow>
          (case py_less_int v 50 of
             Inl e \<Rightarrow> Inl e
           | Inr True \<Rightarrow> Inr ''#ffbb33''
           | Inr False \<Rightarrow> Inr ''#00C851''))"

section \<open>Core functions (v1.0)\<close>

definition show_image :: "mode \<Rightarrow> fstring \<Rightarrow> pyval \<Rightarrow> world \<Rightarrow> (exn + unit) \<times> world" where
  "show_image MODE filename width w =
     (if MODE = TERMINAL then (Inr (), py_print ([Lit ''[IMAGE] ''] @ filename) w)
      else case get_img_path w filename of
             None \<Rightarrow> (Inr (), w)
           | Some path \<Rightarrow>
               (case open_read w path of
                  Inl e \<Rightarrow> (Inr (), py_print (image_failed_msg e) w)
                | Inr content \<Rightarrow>
                    (Inr (), render_html MODE
                       (image_html [Lit ''data:image/png;base64,'', Base64 content] width) w)))"

definition show_pet :: "mode \<Rightarrow> pyval \<Rightarrow> world \<Rightarrow> (exn + unit) \<times> world" where
  "show_pet MODE mood w =
     (if MODE = TERMINAL then
        (Inr (), py_print [Lit ''(^.'', Fmt mood, Lit ''.^) [Pet is '', Fmt mood, Lit '']''] w)
      else show_image MODE [Fmt mood, Lit ''.png''] (PInt 200) w)"

definition create_bar_html :: "string \<Rightarrow> pyval \<Rightarrow> exn + fstring" where
  "create_bar_html label v =
     (case get_bar_color v of
        Inl e \<Rightarrow> Inl e
      | Inr color \<Rightarrow>
          (case py_min_int v 100 of
             Inl e \<Rightarrow> Inl e
           | Inr width \<Rightarrow> Inr (bar_html label v color width)))"

definition show_stats :: "mode \<Rightarrow> pyval \<Rightarrow> pyval \<Rightarrow> pyval \<Rightarrow> pyval \<Rightarrow> world \<Rightarrow> (exn + unit) \<times> world" where
  "show_stats MODE name hp hunger happiness w =
     (if MODE = TERMINAL then
        (let w = py_print [Lit ''--- '', Fmt name, Lit '' ---''] w;
             w = py_print [Lit ''HP: '', Fmt hp, Lit ''/100''] w;
             w = py_print [Lit ''Hunger: '', Fmt hunger, Lit ''/100''] w;
             w = (if happiness \<noteq> PNone
                  then py_print [Lit ''Happy: '', Fmt happiness, Lit ''/100''] w else w)
         in (Inr (), w))
      else
        (case create_bar_html ''HP'' hp of
           Inl e \<Rightarrow> (Inl e, w)
         | Inr hp_bar \<Rightarrow>
        (case create_bar_html ''Hunger'' hunger of
           Inl e \<Rightarrow> (Inl e, w)
         | Inr hunger_bar \<Rightarrow>
        (let content_html = stats_title name @ hp_bar @ hunger_bar
         in if happiness \<noteq> PNone then
              (case create_bar_html ''Happiness'' happiness of
                 Inl e \<Rightarrow> (Inl e, w)
               | Inr happiness_bar \<Rightarrow>
                   (Inr (), render_html MODE (stats_container (content_html @ happiness_bar)) w))
            else (Inr (), render_html MODE (stats_container content_html) w)))))"

section \<open>v2.0 features (dictionaries)\<close>

definition show_pet_dict :: "mode \<Rightarrow> addr \<Rightarrow> world \<Rightarrow> (exn + unit) \<times> world" where
  "show_pet_dict MODE pet_data w =
     (let name = dict_get (heap w pet_data) ''name'' (PStr ''Unknown'');
          hp = dict_get (heap w pet_data) ''hp'' (PInt 0);
          hunger = dict_get (heap w pet_data) ''hunger'' (PInt 0);
          happiness = dict_get (heap w pet_data) ''happiness'' PNone;
          mood = dict_get (heap w pet_data) ''mood'' (PStr ''normal'')
      in case show_pet MODE mood w of
           (Inl e, w) \<Rightarrow> (Inl e, w)
         | (Inr _, w) \<Rightarrow> show_stats MODE name hp hunger happiness w)"

text \<open>
  \<^verbatim>\<open>json.dump\<close> and \<^verbatim>\<open>json.load\<close> belong to Python's standard library, not to this
  repository: they are parameters. \<open>json_dump v\<close> is the text that \<^verbatim>\<open>json.dump\<close> hands to
  the file and the exception that interrupted it, if any; \<open>json_load s\<close> is the value parsed
  from the file's content, or the exception raised while decoding it.

  In both functions the \<^verbatim>\<open>print\<close> of the success line is inside the \<^verbatim>\<open>try\<close>: if the
  console refuses it, the handler runs. The \<^verbatim>\<open>print\<close> of a handler is not inside any
  \<^verbatim>\<open>try\<close>: if the console refuses it, the exception leaves the function. An exception
  raised while the file is closed replaces the one that was leaving the \<^verbatim>\<open>with\<close> block.
\<close>

definition save_pet ::
  "(pyval \<Rightarrow> string \<times> exn option) \<Rightarrow> addr \<Rightarrow> string \<Rightarrow> world \<Rightarrow> (exn + unit) \<times> world" where
  "save_pet json_dump pet_data filename w =
     (case (case open_write w [[Fmt (PStr filename)]] of
              Inl e \<Rightarrow> (Some e, w)
            | Inr w \<Rightarrow>
                (case json_dump (PDict (heap w pet_data)) of
                   (written, raised) \<Rightarrow>
                     (case write_text [[Fmt (PStr filename)]] written w of
                        (Some e, w) \<Rightarrow> (Some e, w)
                      | (None, w) \<Rightarrow>
                          (case raised of
                             Some e \<Rightarrow> (Some e, w)
                           | None \<Rightarrow>
                               (case print_line (saved_msg filename) w of
                                  (Inl e, w) \<Rightarrow> (Some e, w)
                                | (Inr u, w) \<Rightarrow> (None, w)))))) of
        (None, w) \<Rightarrow> (Inr (), w)
      | (Some e, w) \<Rightarrow> print_line (save_failed_msg e) w)"

definition load_pet ::
  "(string \<Rightarrow> exn + pyval) \<Rightarrow> string \<Rightarrow> world \<Rightarrow> (exn + pyval) \<times> world" where
  "load_pet json_load filename w =
     (case (case open_read w [[Fmt (PStr filename)]] of
              Inl e \<Rightarrow> (Inl e, w)
            | Inr content \<Rightarrow>
                (case json_load content of
                   Inl e \<Rightarrow> (Inl e, w)
                 | Inr data \<Rightarrow>
                     (case print_line (loaded_msg filename) w of
                        (Inl e, w) \<Rightarrow> (Inl e, w)
                      | (Inr u, w) \<Rightarrow> (Inr data, w)))) of
        (Inr data, w) \<Rightarrow> (Inr data, w)
      | (Inl FileNotFoundError, w) \<Rightarrow>
          (case print_line (not_found_msg filename) w of
             (Inl e, w) \<Rightarrow> (Inl e, w)
           | (Inr u, w) \<Rightarrow> (Inr PNone, w))
      | (Inl e, w) \<Rightarrow>
          (case print_line (load_failed_msg e) w of
             (Inl e, w) \<Rightarrow> (Inl e, w)
           | (Inr u, w) \<Rightarrow> (Inr PNone, w)))"

section \<open>v3.0 features (rich UI, sound)\<close>

definition hud_percent :: "pyval \<Rightarrow> pyval \<Rightarrow> exn + int" where
  \<comment> \<open>\<^verbatim>\<open>min(100, max(0, int(hp / max_hp * 100)))\<close>\<close>
  "hud_percent hp max_hp =
     (case percent_of hp max_hp of
        Inl e \<Rightarrow> Inl e
      | Inr n \<Rightarrow> Inr (min 100 (max 0 n)))"

definition hud_color :: "int \<Rightarrow> string" where
  \<comment> \<open>\<^verbatim>\<open>"#00C851" if hp_percent > 50 else "#ff4444"\<close>\<close>
  \<open>hud_color hp_percent = (if hp_percent > 50 then ''#00C851'' else ''#ff4444'')\<close>

definition render_hud :: "mode \<Rightarrow> addr \<Rightarrow> world \<Rightarrow> (exn + unit) \<times> world" where
  "render_hud MODE player w =
     (if MODE = TERMINAL then
        (case print_line [Lit ''--- HUD ---''] w of
           (Inl e, w) \<Rightarrow> (Inl e, w)
         | (Inr u, w) \<Rightarrow>
             (let name = dict_get (heap w player) ''name'' (PStr ''Player'');
                  hp = dict_get (heap w player) ''hp'' (PInt 0);
                  max_hp = dict_get (heap w player) ''max_hp'' (PInt 100);
                  gold = dict_get (heap w player) ''gold'' (PInt 0)
              in case format_faults w [name, hp, max_hp, gold] of
                   Some e \<Rightarrow> (Inl e, w)
                 | None \<Rightarrow>
                     print_line [Fmt name, Lit '' | HP: '', Fmt hp, Lit ''/'', Fmt max_hp,
                                 Lit '' | Gold: '', Fmt gold] w))
      else
        (let name = dict_get (heap w player) ''name'' (PStr ''Player'');
             hp = dict_get (heap w player) ''hp'' (PInt 100);
             max_hp = dict_get (heap w player) ''max_hp'' (PInt 100);
             gold = dict_get (heap w player) ''gold'' (PInt 0)
         in case hud_percent hp max_hp of
              Inl e \<Rightarrow> (Inl e, w)
            | Inr hp_percent \<Rightarrow>
                (let hp_color = hud_color hp_percent
                 in case format_faults w [name, hp, max_hp, gold] of
                      Some e \<Rightarrow> (Inl e, w)
                    | None \<Rightarrow>
                        (Inr (), render_html MODE
                                   (hud_html name hp_color hp_percent hp max_hp gold) w))))"

definition card_percent :: "pyval \<Rightarrow> pyval \<Rightarrow> exn + int" where
  \<comment> \<open>\<^verbatim>\<open>int(hp / max_hp * 100) if max_hp > 0 else 0\<close>\<close>
  "card_percent hp max_hp =
     (case py_greater_int max_hp 0 of
        Inl e \<Rightarrow> Inl e
      | Inr True \<Rightarrow> percent_of hp max_hp
      | Inr False \<Rightarrow> Inr 0)"

definition create_card :: "world \<Rightarrow> addr option \<Rightarrow> bool \<Rightarrow> exn + fstring" where
  \<open>create_card w entity is_enemy =
     (case entity of
        None \<Rightarrow> Inr []
      | Some a \<Rightarrow>
          if heap w a = [] then Inr []
          else
            (let name = dict_get (heap w a) ''name'' (PStr ''Unknown'');
                 hp = dict_get (heap w a) ''hp'' (PInt 100);
                 max_hp = dict_get (heap w a) ''max_hp'' (PInt 100);
                 mood = dict_get (heap w a) ''mood'' (PStr ''normal'');
                 img_filename = [Fmt mood, Lit ''.png'']
             in case (case get_img_path w img_filename of
                        Some img_path \<Rightarrow>
                          (case open_read w img_path of
                             Inl e \<Rightarrow> Inl e
                           | Inr content \<Rightarrow> Inr (img_tag_file content))
                      | None \<Rightarrow> Inr (img_tag_placeholder mood)) of
                  Inl e \<Rightarrow> Inl e
                | Inr img_tag \<Rightarrow>
                    (case card_percent hp max_hp of
                       Inl e \<Rightarrow> Inl e
                     | Inr hp_percent \<Rightarrow>
                         (let hp_color = (if is_enemy then ''#ff4444'' else ''#00C851'');
                              border = (if is_enemy then ''2px solid #ff4444'' else ''2px solid #00C851'');
                              bg = (if is_enemy then ''rgba(50, 0, 0, 0.1)'' else ''rgba(0, 50, 0, 0.1)'')
                          in Inr (card_html border bg img_tag name hp_color hp_percent hp max_hp)))))\<close>

definition last_n :: "nat \<Rightarrow> 'a list \<Rightarrow> 'a list" where
  \<comment> \<open>the slice \<^verbatim>\<open>xs[-n:]\<close> for \<open>n > 0\<close>\<close>
  "last_n n xs = drop (length xs - n) xs"

definition log_html :: "string list \<Rightarrow> fstring" where
  \<comment> \<open>\<^verbatim>\<open>for msg in reversed(logs[-5:]): log_html += ...\<close>\<close>
  "log_html logs = concat (map log_entry (rev (last_n 5 logs)))"

fun print_logs :: "string list \<Rightarrow> world \<Rightarrow> world" where
  "print_logs [] w = w"
| "print_logs (msg # logs) w = print_logs logs (py_print [Lit ''> '', Fmt (PStr msg)] w)"

definition truthy :: "world \<Rightarrow> addr option \<Rightarrow> bool" where
  \<comment> \<open>\<^verbatim>\<open>if enemy:\<close> is false for \<^verbatim>\<open>None\<close> and for an empty dict\<close>
  "truthy w entity = (case entity of None \<Rightarrow> False | Some a \<Rightarrow> heap w a \<noteq> [])"

definition show_dashboard ::
  "mode \<Rightarrow> addr \<Rightarrow> addr option \<Rightarrow> string list \<Rightarrow> world \<Rightarrow> (exn + unit) \<times> world" where
  "show_dashboard MODE player enemy logs w =
     (if MODE = TERMINAL then
        (let w = py_print [Lit ''--- DASHBOARD ---''] w;
             w = py_print [Lit ''Player: '', Fmt (dict_get (heap w player) ''name'' PNone),
                           Lit '' | HP: '', Fmt (dict_get (heap w player) ''hp'' PNone)] w;
             w = (case enemy of
                    Some a \<Rightarrow>
                      if heap w a \<noteq> [] then
                        py_print [Lit ''Enemy: '', Fmt (dict_get (heap w a) ''name'' PNone),
                                  Lit '' | HP: '', Fmt (dict_get (heap w a) ''hp'' PNone)] w
                      else w
                  | None \<Rightarrow> w);
             w = py_print [Lit ''--- LOGS ---''] w;
             w = print_logs (last_n 3 logs) w
         in (Inr (), w))
      else
        (case create_card w (Some player) False of
           Inl e \<Rightarrow> (Inl e, w)
         | Inr player_card \<Rightarrow>
             (case (if truthy w enemy then create_card w enemy True else Inr empty_slot) of
                Inl e \<Rightarrow> (Inl e, w)
              | Inr enemy_card \<Rightarrow>
                  (Inr (), render_html MODE (dashboard_html player_card enemy_card (log_html logs)) w))))"

definition py_join :: "string \<Rightarrow> string list \<Rightarrow> string" where
  \<comment> \<open>\<^verbatim>\<open>sep.join(xs)\<close>\<close>
  "py_join sep xs = (case xs of [] \<Rightarrow> [] | x # rest \<Rightarrow> x @ concat (map (\<lambda>y. sep @ y) rest))"

definition play_sound :: "mode \<Rightarrow> string \<Rightarrow> world \<Rightarrow> (exn + unit) \<times> world" where
  "play_sound MODE sound_name w =
     (if MODE = TERMINAL then
        print_line [Lit ''[SOUND] Playing: '', Fmt (PStr sound_name)] w
      else
        (case map_of SOUND_LIBRARY sound_name of
           None \<Rightarrow>
             (case print_line (unknown_sound_msg sound_name) w of
                (Inl e, w) \<Rightarrow> (Inl e, w)
              | (Inr u, w) \<Rightarrow>
                  print_line [Lit ''Available sounds: '',
                              Fmt (PStr (py_join '', '' (map fst SOUND_LIBRARY)))] w)
         | Some url \<Rightarrow>
             (let w = display (Display_Audio url) w
              in case audio_fault w url of
                   None \<Rightarrow> (Inr (), w)
                 | Some e \<Rightarrow> print_line (sound_failed_msg e) w)))"

section \<open>\<^verbatim>\<open>show_stats\<close> of v2.0\<close>

text \<open>
  In \<^verbatim>\<open>v2.0/pet_lib.py\<close> the bar helper takes a flag \<^verbatim>\<open>reverse_color\<close>, set for the
  hunger bar only. \<^verbatim>\<open>_get_bar_color\<close> and the three templates are the same text as in
  v5.0.
\<close>

definition create_bar_html_v2 :: "string \<Rightarrow> pyval \<Rightarrow> bool \<Rightarrow> exn + fstring" where
  "create_bar_html_v2 label v reverse_color =
     (case (if reverse_color then py_rsub_int 100 v else Inr v) of
        Inl e \<Rightarrow> Inl e
      | Inr color_value \<Rightarrow>
          (case get_bar_color color_value of
             Inl e \<Rightarrow> Inl e
           | Inr color \<Rightarrow>
               (case py_min_int v 100 of
                  Inl e \<Rightarrow> Inl e
                | Inr width \<Rightarrow> Inr (bar_html label v color width))))"

definition show_stats_v2 :: "mode \<Rightarrow> pyval \<Rightarrow> pyval \<Rightarrow> pyval \<Rightarrow> pyval \<Rightarrow> world \<Rightarrow> (exn + unit) \<times> world" where
  "show_stats_v2 MODE name hp hunger happiness w =
     (if MODE = TERMINAL then
        (let w = py_print [Lit ''--- '', Fmt name, Lit '' ---''] w;
             w = py_print [Lit ''HP: '', Fmt hp, Lit ''/100''] w;
             w = py_print [Lit ''Hunger: '', Fmt hunger, Lit ''/100''] w;
             w = (if happiness \<noteq> PNone
                  then py_print [Lit ''Happy: '', Fmt happiness, Lit ''/100''] w else w)
         in (Inr (), w))
      else
        (case create_bar_html_v2 ''HP'' hp False of
           Inl e \<Rightarrow> (Inl e, w)
         | Inr hp_bar \<Rightarrow>
        (case create_bar_html_v2 ''Hunger'' hunger True of
           Inl e \<Rightarrow> (Inl e, w)
         | Inr hunger_bar \<Rightarrow>
        (let content_html = stats_title name @ hp_bar @ hunger_bar
         in if happiness \<noteq> PNone then
              (case create_bar_html_v2 ''Happiness'' happiness False of
                 Inl e \<Rightarrow> (Inl e, w)
               | Inr happiness_bar \<Rightarrow>
                   (Inr (), render_html MODE (stats_container (content_html @ happiness_bar)) w))
            else (Inr (), render_html MODE (stats_container content_html) w)))))"

section \<open>The spec's three-level rule, and data for examples\<close>

text \<open>
  The spec's words for the stat panel: a value below 20 is critical (red), below 50 a
  warning (orange), anything else nominal (green).
\<close>

definition three_level :: "int \<Rightarrow> string" where
  "three_level v = (if v < 20 then ''#ff4444'' else if v < 50 then ''#ffbb33'' else ''#00C851'')"

text \<open>
  No objects on the heap; no files, in a directory where files can be created; no I/O
  errors; a console that accepts every line; the default limit on the digits of an integer;
  a display surface that accepts audio; no output yet.
\<close>

definition empty_world :: world where
  "empty_world = \<lparr>heap = (\<lambda>_. []), nodes = (\<lambda>_. Missing FileNotFoundError (Inr True)),
                   write_fault = (\<lambda>_. None), stdout_fault = (\<lambda>_. None),
                   int_max_str_digits = 4300, repr_fault = (\<lambda>_. None),
                   audio_fault = (\<lambda>_. None), out = []\<rparr>"

text \<open>
  A console whose encoding is ASCII: it refuses a line with a byte above 127 in the
  template's text or in a text that is formatted into it.
\<close>

definition ascii_only :: "string \<Rightarrow> bool" where
  "ascii_only s = list_all (\<lambda>c. (of_char c :: nat) < 128) s"

fun piece_ascii :: "piece \<Rightarrow> bool" where
  "piece_ascii (Lit s) = ascii_only s"
| "piece_ascii (Fmt (PStr s)) = ascii_only s"
| "piece_ascii p = True"

definition ascii_console :: "fstring \<Rightarrow> exn option" where
  "ascii_console s = (if list_all piece_ascii s then None else Some UnicodeEncodeError)"

text \<open>
  The record of the spec's end-to-end scenario, the document \<^verbatim>\<open>json.dump\<close> writes for it
  with \<^verbatim>\<open>indent=2\<close>, and a codec that knows this one document.
\<close>

definition byte_record :: pydict where
  "byte_record = [(''name'', PStr ''Byte''), (''hp'', PInt 80), (''hunger'', PInt 30),
                  (''mood'', PStr ''happy'')]"

definition byte_json :: string where
  \<open>byte_json = ''{\<newline>'' @
      ''  "name": "Byte",\<newline>'' @
      ''  "hp": 80,\<newline>'' @
      ''  "hunger": 30,\<newline>'' @
      ''  "mood": "happy"\<newline>'' @
      ''}''\<close>

definition byte_dump :: "pyval \<Rightarrow> string \<times> exn option" where
  "byte_dump v = (if v = PDict byte_record then (byte_json, None) else ([], Some TypeError))"

definition byte_load :: "string \<Rightarrow> exn + pyval" where
  "byte_load s = (if s = byte_json then Inr (PDict byte_record) else Inl ValueError)"

text \<open>The player of the spec's HUD scenario.\<close>

definition hero :: pydict where
  "hero = [(''name'', PStr ''Hero''), (''hp'', PInt 40), (''max_hp'', PInt 100), (''gold'', PInt 50)]"

text \<open>The least integer of 4301 decimal digits.\<close>

definition oversized :: int where
  "oversized = 10 ^ 4300"

section \<open>The stat panel\<close>

lemma get_bar_color_int:
  "get_bar_color (PInt v) =
     Inr (if v < 20 then ''#ff4444'' else if v < 50 then ''#ffbb33'' else ''#00C851'')"
  by (simp add: get_bar_color_def py_less_int_def)

lemma create_bar_html_int:
  "create_bar_html label (PInt v) =
     Inr (bar_html label (PInt v)
            (if v < 20 then ''#ff4444'' else if v < 50 then ''#ffbb33'' else ''#00C851'')
            (PInt (min v 100)))"
  by (simp add: create_bar_html_def get_bar_color_int py_min_int_def min_def)

lemma create_bar_html_v2_int:
  "create_bar_html_v2 label (PInt v) reverse_color =
     Inr (bar_html label (PInt v) (three_level (if reverse_color then 100 - v else v))
            (PInt (min v 100)))"
  by (simp add: create_bar_html_v2_def get_bar_color_int py_min_int_def py_rsub_int_def
      three_level_def min_def)

text \<open>
  Claim C3. The colour of a stat bar follows a three-level rule: an integer value below 20
  is red \<^verbatim>\<open>#ff4444\<close>, from 20 and below 50 orange \<^verbatim>\<open>#ffbb33\<close>, from 50 on green
  \<^verbatim>\<open>#00C851\<close> (for every integer, so for those from 0 to 100), and these are the colours
  of the HP, hunger and happiness bars in the panel that \<^verbatim>\<open>show_stats\<close> displays.
\<close>

theorem stat_bar_color_three_level:
  "get_bar_color (PInt v) =
     Inr (if v < 20 then ''#ff4444'' else if v < 50 then ''#ffbb33'' else ''#00C851'')
   \<and> show_stats JUPYTER name (PInt hp) (PInt hunger) PNone w =
       (Inr (), display (Display_HTML (stats_container
          (stats_title name
           @ bar_html ''HP'' (PInt hp)
               (if hp < 20 then ''#ff4444'' else if hp < 50 then ''#ffbb33'' else ''#00C851'')
               (PInt (min hp 100))
           @ bar_html ''Hunger'' (PInt hunger)
               (if hunger < 20 then ''#ff4444'' else if hunger < 50 then ''#ffbb33'' else ''#00C851'')
               (PInt (min hunger 100))))) w)
   \<and> show_stats JUPYTER name (PInt hp) (PInt hunger) (PInt happiness) w =
       (Inr (), display (Display_HTML (stats_container
          (stats_title name
           @ bar_html ''HP'' (PInt hp)
               (if hp < 20 then ''#ff4444'' else if hp < 50 then ''#ffbb33'' else ''#00C851'')
               (PInt (min hp 100))
           @ bar_html ''Hunger'' (PInt hunger)
               (if hunger < 20 then ''#ff4444'' else if hunger < 50 then ''#ffbb33'' else ''#00C851'')
               (PInt (min hunger 100))
           @ bar_html ''Happiness'' (PInt happiness)
               (if happiness < 20 then ''#ff4444'' else if happiness < 50 then ''#ffbb33'' else ''#00C851'')
               (PInt (min happiness 100))))) w)"
  by (simp add: get_bar_color_int show_stats_def create_bar_html_int render_html_def Let_def
      split del: if_split)

text \<open>
  Claim C7. In v2.0 the hunger bar is coloured by the three-level rule applied to
  \<open>100 - hunger\<close>, the HP and happiness bars by the rule applied to the value itself, and
  every bar is filled to \<open>min value 100\<close> percent.
\<close>

theorem v2_hunger_bar_color_inverted:
  "create_bar_html_v2 ''HP'' (PInt hp) False =
     Inr (bar_html ''HP'' (PInt hp) (three_level hp) (PInt (min hp 100)))
   \<and> create_bar_html_v2 ''Hunger'' (PInt hunger) True =
     Inr (bar_html ''Hunger'' (PInt hunger) (three_level (100 - hunger)) (PInt (min hunger 100)))
   \<and> create_bar_html_v2 ''Happiness'' (PInt happiness) False =
     Inr (bar_html ''Happiness'' (PInt happiness) (three_level happiness) (PInt (min happiness 100)))
   \<and> show_stats_v2 JUPYTER name (PInt hp) (PInt hunger) PNone w =
       (Inr (), display (Display_HTML (stats_container
          (stats_title name
           @ bar_html ''HP'' (PInt hp) (three_level hp) (PInt (min hp 100))
           @ bar_html ''Hunger'' (PInt hunger) (three_level (100 - hunger)) (PInt (min hunger 100))))) w)
   \<and> show_stats_v2 JUPYTER name (PInt hp) (PInt hunger) (PInt happiness) w =
       (Inr (), display (Display_HTML (stats_container
          (stats_title name
           @ bar_html ''HP'' (PInt hp) (three_level hp) (PInt (min hp 100))
           @ bar_html ''Hunger'' (PInt hunger) (three_level (100 - hunger)) (PInt (min hunger 100))
           @ bar_html ''Happiness'' (PInt happiness) (three_level happiness)
               (PInt (min happiness 100))))) w)"
  by (simp add: show_stats_v2_def create_bar_html_v2_int render_html_def Let_def)

section \<open>Records are only read\<close>

lemma heap_py_print [simp]: "heap (py_print s w) = heap w"
  by (simp add: py_print_def)

lemma fields_py_print [simp]:
  "nodes (py_print s w) = nodes w"
  "write_fault (py_print s w) = write_fault w"
  "stdout_fault (py_print s w) = stdout_fault w"
  "int_max_str_digits (py_print s w) = int_max_str_digits w"
  "repr_fault (py_print s w) = repr_fault w"
  "audio_fault (py_print s w) = audio_fault w"
  by (simp_all add: py_print_def)

lemma heap_display [simp]: "heap (display e w) = heap w"
  by (simp add: display_def)

lemma heap_render_html [simp]: "heap (render_html MODE h w) = heap w"
  by (simp add: render_html_def)

lemma heap_print_line [simp]: "heap (snd (print_line s w)) = heap w"
  by (simp add: print_line_def split: option.splits)

lemma heap_write_text [simp]: "heap (snd (write_text p c w)) = heap w"
  by (simp add: write_text_def split: node.splits option.splits prod.splits)

lemma heap_open_write: "open_write w p = Inr w' \<Longrightarrow> heap w' = heap w"
  by (auto simp: open_write_def split: node.splits sum.splits if_splits)

lemma heap_print_logs [simp]: "heap (print_logs logs w) = heap w"
  by (induction logs arbitrary: w) simp_all

lemma heap_show_image [simp]: "heap (snd (show_image MODE f wd w)) = heap w"
  by (simp add: show_image_def split: option.splits sum.splits)

lemma heap_show_pet [simp]: "heap (snd (show_pet MODE mood w)) = heap w"
  by (simp add: show_pet_def)

lemma heap_show_stats [simp]: "heap (snd (show_stats MODE name hp hunger happiness w)) = heap w"
  by (simp add: show_stats_def Let_def split: sum.splits)

lemma heap_show_pet_dict: "heap (snd (show_pet_dict MODE a w)) = heap w"
proof -
  obtain r w' where sp: "show_pet MODE (dict_get (heap w a) ''mood'' (PStr ''normal'')) w = (r, w')"
    by (cases "show_pet MODE (dict_get (heap w a) ''mood'' (PStr ''normal'')) w")
  then have "heap w' = heap w"
    using heap_show_pet [of MODE "dict_get (heap w a) ''mood'' (PStr ''normal'')" w] by simp
  then show ?thesis
    using sp by (cases r) (simp_all add: show_pet_dict_def Let_def)
qed

lemma heap_render_hud: "heap (snd (render_hud MODE a w)) = heap w"
proof (cases MODE)
  case JUPYTER
  then show ?thesis
    by (simp add: render_hud_def Let_def split: sum.splits option.splits)
next
  case TERMINAL
  obtain r w1 where p: "print_line [Lit ''--- HUD ---''] w = (r, w1)"
    by (cases "print_line [Lit ''--- HUD ---''] w")
  then have h: "heap w1 = heap w"
    using heap_print_line [of "[Lit ''--- HUD ---'']" w] by simp
  show ?thesis
    using TERMINAL p h
    by (cases r) (simp_all add: render_hud_def Let_def split: option.splits)
qed

lemma heap_show_dashboard: "heap (snd (show_dashboard MODE a enemy logs w)) = heap w"
  by (simp add: show_dashboard_def Let_def split: sum.splits option.splits)

lemma heap_save_pet: "heap (snd (save_pet jd a f w)) = heap w"
proof -
  let ?p = "[[Fmt (PStr f)]]"
  show ?thesis
  proof (cases "open_write w ?p")
    case (Inl e)
    then show ?thesis by (simp add: save_pet_def)
  next
    case (Inr w1)
    then have h1: "heap w1 = heap w" by (rule heap_open_write)
    obtain written raised where jd: "jd (PDict (heap w1 a)) = (written, raised)"
      by (cases "jd (PDict (heap w1 a))")
    obtain r2 w2 where wt: "write_text ?p written w1 = (r2, w2)"
      by (cases "write_text ?p written w1")
    then have h2: "heap w2 = heap w"
      using heap_write_text [of ?p written w1] h1 by simp
    obtain r3 w3 where pl: "print_line (saved_msg f) w2 = (r3, w3)"
      by (cases "print_line (saved_msg f) w2")
    then have h3: "heap w3 = heap w"
      using heap_print_line [of "saved_msg f" w2] h2 by simp
    show ?thesis
      using Inr jd wt pl h2 h3
      by (cases r2; cases raised; cases r3) (simp_all add: save_pet_def)
  qed
qed

text \<open>
  Claim C9. No presenter and no call of \<^verbatim>\<open>save_pet\<close> changes a record: after the call the
  heap, and with it the field mapping of the record that was passed, is what it was before,
  whether the call returns or raises.
\<close>

theorem presenters_do_not_mutate_records:
  "heap (snd (show_pet_dict MODE pet_data w)) = heap w
   \<and> heap (snd (show_stats MODE name hp hunger happiness w)) = heap w
   \<and> heap (snd (render_hud MODE player w)) = heap w
   \<and> heap (snd (show_dashboard MODE player enemy logs w)) = heap w
   \<and> heap (snd (save_pet json_dump pet_data filename w)) = heap w"
  by (simp add: heap_show_pet_dict heap_render_hud heap_show_dashboard heap_save_pet)

section \<open>Defaults of \<^verbatim>\<open>show_pet_dict\<close>\<close>

lemma show_pet_returns: "fst (show_pet MODE mood w) = Inr ()"
  by (simp add: show_pet_def show_image_def split: option.splits sum.splits)

lemma show_pet_dict_eq:
  "show_pet_dict MODE a w =
     show_stats MODE
       (dict_get (heap w a) ''name'' (PStr ''Unknown''))
       (dict_get (heap w a) ''hp'' (PInt 0))
       (dict_get (heap w a) ''hunger'' (PInt 0))
       (dict_get (heap w a) ''happiness'' PNone)
       (snd (show_pet MODE (dict_get (heap w a) ''mood'' (PStr ''normal'')) w))"
proof -
  obtain r w' where sp: "show_pet MODE (dict_get (heap w a) ''mood'' (PStr ''normal'')) w = (r, w')"
    by (cases "show_pet MODE (dict_get (heap w a) ''mood'' (PStr ''normal'')) w")
  have hw: "heap w' = heap w"
    using heap_show_pet [of MODE "dict_get (heap w a) ''mood'' (PStr ''normal'')" w] sp by simp
  have "r = Inr ()"
    using show_pet_returns [of MODE "dict_get (heap w a) ''mood'' (PStr ''normal'')" w] sp by simp
  then show ?thesis
    using sp hw by (simp add: show_pet_dict_def Let_def)
qed

text \<open>
  Claim C10. \<^verbatim>\<open>show_pet_dict\<close> renders a record as \<^verbatim>\<open>show_pet\<close> and
  \<^verbatim>\<open>show_stats\<close> render its fields, with \<^verbatim>\<open>"Unknown"\<close> for an absent name, 0 for
  an absent hp or hunger, \<^verbatim>\<open>None\<close> (no bar) for an absent happiness and
  \<^verbatim>\<open>"normal"\<close> for an absent mood. A record without hp is displayed with an HP bar of
  value 0, width 0 and the critical colour.
\<close>

theorem show_pet_dict_defaults:
  "show_pet_dict MODE a w =
     show_stats MODE
       (case map_of (heap w a) ''name'' of None \<Rightarrow> PStr ''Unknown'' | Some v \<Rightarrow> v)
       (case map_of (heap w a) ''hp'' of None \<Rightarrow> PInt 0 | Some v \<Rightarrow> v)
       (case map_of (heap w a) ''hunger'' of None \<Rightarrow> PInt 0 | Some v \<Rightarrow> v)
       (case map_of (heap w a) ''happiness'' of None \<Rightarrow> PNone | Some v \<Rightarrow> v)
       (snd (show_pet MODE
          (case map_of (heap w a) ''mood'' of None \<Rightarrow> PStr ''normal'' | Some v \<Rightarrow> v) w))
   \<and> (map_of (heap w a) ''hp'' = None \<longrightarrow>
        map_of (heap w a) ''hunger'' = Some (PInt hunger) \<longrightarrow>
        map_of (heap w a) ''happiness'' = None \<longrightarrow>
        show_pet_dict JUPYTER a w =
          (Inr (), display (Display_HTML (stats_container
             (stats_title (case map_of (heap w a) ''name'' of None \<Rightarrow> PStr ''Unknown'' | Some v \<Rightarrow> v)
              @ bar_html ''HP'' (PInt 0) ''#ff4444'' (PInt 0)
              @ bar_html ''Hunger'' (PInt hunger) (three_level hunger) (PInt (min hunger 100)))))
             (snd (show_pet JUPYTER
                (case map_of (heap w a) ''mood'' of None \<Rightarrow> PStr ''normal'' | Some v \<Rightarrow> v) w))))"
proof (intro conjI impI)
  show "show_pet_dict MODE a w =
     show_stats MODE
       (case map_of (heap w a) ''name'' of None \<Rightarrow> PStr ''Unknown'' | Some v \<Rightarrow> v)
       (case map_of (heap w a) ''hp'' of None \<Rightarrow> PInt 0 | Some v \<Rightarrow> v)
       (case map_of (heap w a) ''hunger'' of None \<Rightarrow> PInt 0 | Some v \<Rightarrow> v)
       (case map_of (heap w a) ''happiness'' of None \<Rightarrow> PNone | Some v \<Rightarrow> v)
       (snd (show_pet MODE
          (case map_of (heap w a) ''mood'' of None \<Rightarrow> PStr ''normal'' | Some v \<Rightarrow> v) w))"
    using show_pet_dict_eq [of MODE a w] by (simp add: dict_get_def)
next
  assume "map_of (heap w a) ''hp'' = None"
    and "map_of (heap w a) ''hunger'' = Some (PInt hunger)"
    and "map_of (heap w a) ''happiness'' = None"
  then show "show_pet_dict JUPYTER a w =
          (Inr (), display (Display_HTML (stats_container
             (stats_title (case map_of (heap w a) ''name'' of None \<Rightarrow> PStr ''Unknown'' | Some v \<Rightarrow> v)
              @ bar_html ''HP'' (PInt 0) ''#ff4444'' (PInt 0)
              @ bar_html ''Hunger'' (PInt hunger) (three_level hunger) (PInt (min hunger 100)))))
             (snd (show_pet JUPYTER
                (case map_of (heap w a) ''mood'' of None \<Rightarrow> PStr ''normal'' | Some v \<Rightarrow> v) w)))"
    using show_pet_dict_eq [of JUPYTER a w]
    by (simp add: dict_get_def show_stats_def create_bar_html_int render_html_def Let_def
        three_level_def split del: if_split)
qed

theorem show_pet_dict_defaults_witness:
  "show_pet_dict JUPYTER 0
     (empty_world\<lparr>heap := (\<lambda>_. [])(0 := [(''name'', PStr ''Byte''), (''hunger'', PInt 30)])\<rparr>) =
   (Inr (), display (Display_HTML (stats_container
      (stats_title (PStr ''Byte'')
       @ bar_html ''HP'' (PInt 0) ''#ff4444'' (PInt 0)
       @ bar_html ''Hunger'' (PInt 30) ''#ffbb33'' (PInt 30))))
      (empty_world\<lparr>heap := (\<lambda>_. [])(0 := [(''name'', PStr ''Byte''), (''hunger'', PInt 30)])\<rparr>))"
proof -
  let ?w = "empty_world\<lparr>heap := (\<lambda>_. [])(0 := [(''name'', PStr ''Byte''), (''hunger'', PInt 30)])\<rparr>"
  have a: "map_of (heap ?w 0) ''hp'' = None" by simp
  have b: "map_of (heap ?w 0) ''hunger'' = Some (PInt 30)" by simp
  have c: "map_of (heap ?w 0) ''happiness'' = None" by simp
  have d: "snd (show_pet JUPYTER (PStr ''normal'') ?w) = ?w"
    by (simp add: show_pet_def show_image_def get_img_path_def path_exists_def empty_world_def)
  have "show_pet_dict JUPYTER 0 ?w =
          (Inr (), display (Display_HTML (stats_container
             (stats_title (case map_of (heap ?w 0) ''name'' of None \<Rightarrow> PStr ''Unknown'' | Some v \<Rightarrow> v)
              @ bar_html ''HP'' (PInt 0) ''#ff4444'' (PInt 0)
              @ bar_html ''Hunger'' (PInt 30) (three_level 30) (PInt (min 30 100)))))
             (snd (show_pet JUPYTER
                (case map_of (heap ?w 0) ''mood'' of None \<Rightarrow> PStr ''normal'' | Some v \<Rightarrow> v) ?w)))"
    using show_pet_dict_defaults [of JUPYTER 0 ?w 30] a b c by blast
  then show ?thesis
    using d by (simp add: three_level_def)
qed

section \<open>Saving and loading\<close>

lemma not_found_msg_neq_load_failed_msg: "not_found_msg filename \<noteq> load_failed_msg e"
  by (simp add: not_found_msg_def load_failed_msg_def)

lemma print_line_accepted:
  "stdout_fault w s = None \<Longrightarrow> print_line s w = (Inr (), py_print s w)"
  by (simp add: print_line_def)

lemma print_line_refused:
  "stdout_fault w s = Some e \<Longrightarrow> print_line s w = (Inl e, w)"
  by (simp add: print_line_def)

lemma print_line_returns:
  "\<forall>s. stdout_fault w s = None \<Longrightarrow> print_line s w = (Inr (), py_print s w)"
  by (simp add: print_line_def)

lemma load_pet_not_found:
  assumes "open_read w [[Fmt (PStr filename)]] = Inl FileNotFoundError"
  shows "load_pet json_load filename w =
           (case print_line (not_found_msg filename) w of
              (Inl e, w') \<Rightarrow> (Inl e, w')
            | (Inr u, w') \<Rightarrow> (Inr PNone, w'))"
  using assms by (simp add: load_pet_def)

lemma load_pet_open_failed:
  assumes "open_read w [[Fmt (PStr filename)]] = Inl e" and "e \<noteq> FileNotFoundError"
  shows "load_pet json_load filename w =
           (case print_line (load_failed_msg e) w of
              (Inl e', w') \<Rightarrow> (Inl e', w')
            | (Inr u, w') \<Rightarrow> (Inr PNone, w'))"
  using assms by (cases e) (simp_all add: load_pet_def)

lemma load_pet_decode_failed:
  assumes "open_read w [[Fmt (PStr filename)]] = Inr content"
      and "json_load content = Inl e" and "e \<noteq> FileNotFoundError"
  shows "load_pet json_load filename w =
           (case print_line (load_failed_msg e) w of
              (Inl e', w') \<Rightarrow> (Inl e', w')
            | (Inr u, w') \<Rightarrow> (Inr PNone, w'))"
  using assms by (cases e) (simp_all add: load_pet_def)

lemma load_pet_returns:
  assumes "\<forall>s. stdout_fault w s = None"
  shows "\<exists>v. fst (load_pet json_load filename w) = Inr v"
  using assms
  by (auto simp: load_pet_def print_line_def split: sum.splits exn.splits prod.splits)

lemma load_pet_nothing_there:
  assumes "nodes w [[Fmt (PStr filename)]] = Missing raised create"
      and "\<forall>s. stdout_fault w s = None"
  shows "fst (load_pet json_load filename w) = Inr PNone"
  using assms
  by (cases raised) (simp_all add: load_pet_def open_read_def print_line_def)

text \<open>
  Claim C4, as amended. \<^verbatim>\<open>load_pet\<close> reports a missing file (\<^verbatim>\<open>open\<close> raises
  \<^verbatim>\<open>FileNotFoundError\<close>) and every other failure (another error of \<^verbatim>\<open>open\<close>, or content
  that \<^verbatim>\<open>json.load\<close> rejects) as two different cases, each with its own line. When the
  console accepts the line, \<^verbatim>\<open>load_pet\<close> prints it and returns \<^verbatim>\<open>None\<close>; when the
  console refuses the line, the exception of \<^verbatim>\<open>print\<close> leaves \<^verbatim>\<open>load_pet\<close>, because
  the \<^verbatim>\<open>print\<close> of a handler is not inside a \<^verbatim>\<open>try\<close>. On a console that accepts every
  line \<^verbatim>\<open>load_pet\<close> never raises, and on a path where nothing is it returns
  \<^verbatim>\<open>None\<close>.
\<close>

theorem load_pet_missing_and_malformed:
  "(open_read w [[Fmt (PStr filename)]] = Inl FileNotFoundError \<longrightarrow>
      (stdout_fault w (not_found_msg filename) = None \<longrightarrow>
         load_pet json_load filename w = (Inr PNone, py_print (not_found_msg filename) w))
      \<and> (stdout_fault w (not_found_msg filename) = Some e' \<longrightarrow>
         load_pet json_load filename w = (Inl e', w)))
   \<and> (open_read w [[Fmt (PStr filename)]] = Inl e
        \<or> (\<exists>content. open_read w [[Fmt (PStr filename)]] = Inr content
                      \<and> json_load content = Inl e) \<longrightarrow>
      e \<noteq> FileNotFoundError \<longrightarrow>
      (stdout_fault w (load_failed_msg e) = None \<longrightarrow>
         load_pet json_load filename w = (Inr PNone, py_print (load_failed_msg e) w))
      \<and> (stdout_fault w (load_failed_msg e) = Some e' \<longrightarrow>
         load_pet json_load filename w = (Inl e', w)))
   \<and> not_found_msg filename \<noteq> load_failed_msg e
   \<and> ((\<forall>s. stdout_fault w s = None) \<longrightarrow>
        (\<exists>v. fst (load_pet json_load filename w) = Inr v)
        \<and> (nodes w [[Fmt (PStr filename)]] = Missing raised create \<longrightarrow>
             fst (load_pet json_load filename w) = Inr PNone))"
proof (intro conjI impI)
  assume nf: "open_read w [[Fmt (PStr filename)]] = Inl FileNotFoundError"
  show "load_pet json_load filename w = (Inr PNone, py_print (not_found_msg filename) w)"
    if "stdout_fault w (not_found_msg filename) = None"
    using that by (simp add: load_pet_not_found [OF nf] print_line_accepted)
  show "load_pet json_load filename w = (Inl e', w)"
    if "stdout_fault w (not_found_msg filename) = Some e'"
    using that by (simp add: load_pet_not_found [OF nf] print_line_refused)
next
  assume f: "open_read w [[Fmt (PStr filename)]] = Inl e
        \<or> (\<exists>content. open_read w [[Fmt (PStr filename)]] = Inr content
                      \<and> json_load content = Inl e)"
    and ne: "e \<noteq> FileNotFoundError"
  have eq: "load_pet json_load filename w =
           (case print_line (load_failed_msg e) w of
              (Inl e', w') \<Rightarrow> (Inl e', w')
            | (Inr u, w') \<Rightarrow> (Inr PNone, w'))"
    using f ne load_pet_open_failed load_pet_decode_failed by blast
  show "load_pet json_load filename w = (Inr PNone, py_print (load_failed_msg e) w)"
    if "stdout_fault w (load_failed_msg e) = None"
    using that by (simp add: eq print_line_accepted)
  show "load_pet json_load filename w = (Inl e', w)"
    if "stdout_fault w (load_failed_msg e) = Some e'"
    using that by (simp add: eq print_line_refused)
next
  show "not_found_msg filename \<noteq> load_failed_msg e"
    by (rule not_found_msg_neq_load_failed_msg)
next
  assume "\<forall>s. stdout_fault w s = None"
  then show "\<exists>v. fst (load_pet json_load filename w) = Inr v"
    by (rule load_pet_returns)
next
  assume "\<forall>s. stdout_fault w s = None"
    and "nodes w [[Fmt (PStr filename)]] = Missing raised create"
  then show "fst (load_pet json_load filename w) = Inr PNone"
    by (simp add: load_pet_nothing_there)
qed

theorem load_pet_missing_and_malformed_witness:
  "load_pet byte_load ''save.json'' empty_world =
     (Inr PNone, py_print (not_found_msg ''save.json'') empty_world)
   \<and> load_pet byte_load ''save.json''
        (empty_world\<lparr>nodes := (nodes empty_world)
           ([[Fmt (PStr ''save.json'')]] := Regular True True ''{oops'')\<rparr>) =
     (Inr PNone, py_print (load_failed_msg ValueError)
        (empty_world\<lparr>nodes := (nodes empty_world)
           ([[Fmt (PStr ''save.json'')]] := Regular True True ''{oops'')\<rparr>))"
proof -
  let ?w = "empty_world\<lparr>nodes := (nodes empty_world)
              ([[Fmt (PStr ''save.json'')]] := Regular True True ''{oops'')\<rparr>"
  have a: "open_read empty_world [[Fmt (PStr ''save.json'')]] = Inl FileNotFoundError"
    by (simp add: open_read_def empty_world_def)
  have a': "stdout_fault empty_world (not_found_msg ''save.json'') = None"
    by (simp add: empty_world_def)
  have b: "open_read ?w [[Fmt (PStr ''save.json'')]] = Inr ''{oops''"
    by (simp add: open_read_def empty_world_def)
  have c: "byte_load ''{oops'' = Inl ValueError"
    by (simp add: byte_load_def byte_json_def)
  have d: "ValueError \<noteq> FileNotFoundError" by simp
  have d': "stdout_fault ?w (load_failed_msg ValueError) = None"
    by (simp add: empty_world_def)
  from load_pet_missing_and_malformed
         [where w = empty_world and filename = "''save.json''" and json_load = byte_load] a a'
  have 1: "load_pet byte_load ''save.json'' empty_world =
     (Inr PNone, py_print (not_found_msg ''save.json'') empty_world)" by blast
  from load_pet_missing_and_malformed
         [where w = ?w and filename = "''save.json''" and e = ValueError and json_load = byte_load]
       b c d d'
  have 2: "load_pet byte_load ''save.json'' ?w =
     (Inr PNone, py_print (load_failed_msg ValueError) ?w)" by blast
  from 1 2 show ?thesis by blast
qed

text \<open>
  As stated, without a condition on the console, the claim fails: on a console that encodes
  ASCII only, the not-found line, which begins with a warning sign, is refused, and
  \<^verbatim>\<open>load_pet\<close> on a path where nothing is raises \<^verbatim>\<open>UnicodeEncodeError\<close>.
\<close>

theorem load_pet_refused_line_counterexample:
  "nodes (empty_world\<lparr>stdout_fault := ascii_console\<rparr>) [[Fmt (PStr ''save.json'')]] =
     Missing FileNotFoundError (Inr True)
   \<and> load_pet byte_load ''save.json'' (empty_world\<lparr>stdout_fault := ascii_console\<rparr>) =
       (Inl UnicodeEncodeError, empty_world\<lparr>stdout_fault := ascii_console\<rparr>)"
  by (simp add: load_pet_def open_read_def print_line_def empty_world_def ascii_console_def
      not_found_msg_def ascii_only_def)

section \<open>Rounding to binary64\<close>

lemma p2_add: "(2::rat) powi (m + n) = 2 powi m * 2 powi n"
  by (simp add: power_int_add)

lemma p2_diff: "(2::rat) powi (m - n) = 2 powi m / 2 powi n"
  by (simp add: power_int_diff)

lemma int_pow2_bounds:
  fixes n :: int
  assumes "0 < n"
  shows "(2::rat) powi (bitlen n - 1) \<le> of_int n" and "of_int n < (2::rat) powi (bitlen n)"
proof -
  from bitlen_bounds [OF assms] have a: "2 ^ nat (bitlen n - 1) \<le> n" and b: "n < 2 ^ nat (bitlen n)"
    by auto
  have pos: "0 < bitlen n"
    using assms by (simp add: bitlen_alt_def)
  have "(2::rat) powi (bitlen n - 1) = 2 ^ nat (bitlen n - 1)"
    using pos by (simp add: power_int_nonneg_exp)
  also have "\<dots> = of_int (2 ^ nat (bitlen n - 1))" by simp
  also have "\<dots> \<le> of_int n" using a by (simp only: of_int_le_iff)
  finally show "(2::rat) powi (bitlen n - 1) \<le> of_int n" .
  have "(of_int n :: rat) < of_int (2 ^ nat (bitlen n))" using b by (simp only: of_int_less_iff)
  also have "\<dots> = 2 ^ nat (bitlen n)" by simp
  also have "\<dots> = 2 powi (bitlen n)" using pos by (simp add: power_int_nonneg_exp)
  finally show "of_int n < (2::rat) powi (bitlen n)" .
qed

lemma ilog2_bounds:
  assumes "0 < a"
  shows "2 powi (ilog2 a) \<le> a" and "a < 2 powi (ilog2 a + 1)"
proof -
  obtain n d where q: "quotient_of a = (n, d)" by (cases "quotient_of a")
  then have d: "0 < d" by (rule quotient_of_denom_pos)
  have a: "a = of_int n / of_int d"
    using q by (metis quotient_of_div)
  have n: "0 < n"
    using assms a d by (simp add: zero_less_divide_iff)
  define k where "k = bitlen n - bitlen d"
  have lo: "2 powi (k - 1) \<le> a"
  proof -
    have "k - 1 = (bitlen n - 1) - bitlen d"
      by (simp add: k_def)
    then have "(2::rat) powi (k - 1) = 2 powi (bitlen n - 1) / 2 powi (bitlen d)"
      by (simp only: p2_diff)
    also have "\<dots> \<le> of_int n / 2 powi (bitlen d)"
      using int_pow2_bounds(1) [OF n] by (simp add: divide_right_mono)
    also have "\<dots> \<le> of_int n / of_int d"
      using int_pow2_bounds(2) [OF d] n d by (simp add: frac_le)
    finally show ?thesis by (simp add: a)
  qed
  have hi: "a < 2 powi (k + 1)"
  proof -
    have "a = of_int n / of_int d" by (rule a)
    also have "\<dots> < 2 powi (bitlen n) / of_int d"
      using int_pow2_bounds(2) [OF n] d by (simp add: divide_strict_right_mono)
    also have "\<dots> \<le> 2 powi (bitlen n) / 2 powi (bitlen d - 1)"
      using int_pow2_bounds(1) [OF d] by (simp add: frac_le)
    also have "\<dots> = 2 powi (bitlen n - (bitlen d - 1))"
      by (simp only: p2_diff)
    also have "bitlen n - (bitlen d - 1) = k + 1"
      by (simp add: k_def)
    finally show ?thesis .
  qed
  have e: "ilog2 a = (if 2 powi k \<le> a then k else k - 1)"
    by (simp add: ilog2_def q k_def Let_def)
  show "2 powi (ilog2 a) \<le> a"
    using lo by (simp add: e)
  show "a < 2 powi (ilog2 a + 1)"
    using hi by (auto simp: e not_le)
qed

lemma ilog2_unique:
  assumes "2 powi e \<le> a" and "a < 2 powi (e + 1)"
  shows "ilog2 a = e"
proof -
  have pos: "0 < a"
    using assms(1) by (rule less_le_trans [rotated]) simp
  note b = ilog2_bounds [OF pos]
  have "(2::rat) powi e < 2 powi (ilog2 a + 1)"
    using assms(1) b(2) by simp
  then have 1: "e < ilog2 a + 1"
    by (metis not_less power_int_increasing one_le_numeral)
  have "(2::rat) powi (ilog2 a) < 2 powi (e + 1)"
    using assms(2) b(1) by simp
  then have 2: "ilog2 a < e + 1"
    by (metis not_less power_int_increasing one_le_numeral)
  from 1 2 show ?thesis by simp
qed


lemma round_half_even_of_int [simp]: "round_half_even (of_int n) = n"
  by (simp add: round_half_even_def)

lemma round_half_even_ge_floor: "\<lfloor>x\<rfloor> \<le> round_half_even x"
  by (simp add: round_half_even_def Let_def)

lemma round_half_even_le_floor1: "round_half_even x \<le> \<lfloor>x\<rfloor> + 1"
  by (simp add: round_half_even_def Let_def)

lemma round_half_even_mono:
  assumes "x \<le> y"
  shows "round_half_even x \<le> round_half_even y"
proof (cases "\<lfloor>x\<rfloor> = \<lfloor>y\<rfloor>")
  case True
  with assms show ?thesis
    by (auto simp: round_half_even_def Let_def)
next
  case False
  with assms have "\<lfloor>x\<rfloor> < \<lfloor>y\<rfloor>"
    by (simp add: floor_mono order.not_eq_order_implies_strict)
  then have "round_half_even x \<le> \<lfloor>y\<rfloor>"
    using round_half_even_le_floor1 [of x] by linarith
  then show ?thesis
    using round_half_even_ge_floor [of y] by linarith
qed

lemma round_half_even_le_int: "x \<le> of_int n \<Longrightarrow> round_half_even x \<le> n"
  using round_half_even_mono [of x "of_int n"] by simp

lemma round_half_even_ge_int: "of_int n \<le> x \<Longrightarrow> n \<le> round_half_even x"
  using round_half_even_mono [of "of_int n" x] by simp

lemma round_half_even_nonneg: "0 \<le> x \<Longrightarrow> 0 \<le> round_half_even x"
  using round_half_even_ge_int [of 0 x] by simp

lemma round_binary64_pos:
  "0 < x \<Longrightarrow> round_binary64 x = of_int (round_half_even (x / 2 powi ulp_exp x)) * 2 powi ulp_exp x"
  by (simp add: round_binary64_def Let_def)

lemma round_binary64_neg:
  "x < 0 \<Longrightarrow> round_binary64 x = - (of_int (round_half_even (- x / 2 powi ulp_exp (- x))) * 2 powi ulp_exp (- x))"
  by (simp add: round_binary64_def Let_def)

lemma round_binary64_nonneg: "0 \<le> x \<Longrightarrow> 0 \<le> round_binary64 x"
proof (cases "x = 0")
  case True
  then show ?thesis by (simp add: round_binary64_def)
next
  case False
  assume "0 \<le> x"
  with False have x: "0 < x" by simp
  have "0 \<le> round_half_even (x / 2 powi ulp_exp x)"
    using x by (intro round_half_even_nonneg) simp
  then show ?thesis
    by (simp add: round_binary64_pos [OF x])
qed

lemma round_binary64_nonpos: "x \<le> 0 \<Longrightarrow> round_binary64 x \<le> 0"
proof (cases "x = 0")
  case True
  then show ?thesis by (simp add: round_binary64_def)
next
  case False
  assume "x \<le> 0"
  with False have x: "x < 0" by simp
  have "0 \<le> round_half_even (- x / 2 powi ulp_exp (- x))"
    using x by (intro round_half_even_nonneg divide_nonneg_pos) simp_all
  then show ?thesis
    by (simp add: round_binary64_neg [OF x])
qed

lemma ilog2_mono:
  assumes "0 < x" and "x \<le> y"
  shows "ilog2 x \<le> ilog2 y"
proof -
  have y: "0 < y" using assms by simp
  have "(2::rat) powi (ilog2 x) < 2 powi (ilog2 y + 1)"
    using ilog2_bounds(1) [OF assms(1)] ilog2_bounds(2) [OF y] assms(2) by simp
  then have "ilog2 x < ilog2 y + 1"
    by (metis not_less power_int_increasing one_le_numeral)
  then show ?thesis by simp
qed

lemma ulp_exp_mono: "0 < x \<Longrightarrow> x \<le> y \<Longrightarrow> ulp_exp x \<le> ulp_exp y"
  using ilog2_mono [of x y] by (simp add: ulp_exp_def)

lemma pow2_is_int:
  assumes "0 \<le> k"
  shows "(2::rat) powi k = of_int (2 ^ nat k)"
  using assms by (simp add: power_int_nonneg_exp)

lemma round_binary64_mono_pos:
  assumes x: "0 < x" and xy: "x \<le> y"
  shows "round_binary64 x \<le> round_binary64 y"
proof -
  have y: "0 < y" using x xy by simp
  let ?p = "ulp_exp x" and ?q = "ulp_exp y"
  have pq: "?p \<le> ?q" using x xy by (rule ulp_exp_mono)
  show ?thesis
  proof (cases "?p = ?q")
    case True
    have "x / 2 powi ?q \<le> y / 2 powi ?q"
      using xy by (simp add: divide_right_mono)
    then have "round_half_even (x / 2 powi ?q) \<le> round_half_even (y / 2 powi ?q)"
      by (rule round_half_even_mono)
    then have "of_int (round_half_even (x / 2 powi ?q)) * 2 powi ?q
               \<le> (of_int (round_half_even (y / 2 powi ?q)) :: rat) * 2 powi ?q"
      by (simp add: mult_right_mono)
    then show ?thesis
      using True by (simp add: round_binary64_pos [OF x] round_binary64_pos [OF y])
  next
    case False
    with pq have lt: "?p < ?q" by simp
    then have q: "?q = ilog2 y - 52"
      by (auto simp: ulp_exp_def max_def split: if_splits)
    have ex: "ilog2 x < ilog2 y"
      using lt by (auto simp: ulp_exp_def max_def split: if_splits)
    define B :: rat where "B = 2 powi (ilog2 y)"
    \<comment> \<open>the power of two between them is a float in both binades\<close>
    have xB: "x \<le> B"
    proof -
      have "x < 2 powi (ilog2 x + 1)" using x by (rule ilog2_bounds(2))
      also have "\<dots> \<le> 2 powi (ilog2 y)"
        using ex by (intro power_int_increasing) simp_all
      finally show ?thesis by (simp add: B_def)
    qed
    have By: "B \<le> y"
      using ilog2_bounds(1) [OF y] by (simp add: B_def)
    have Bp: "B / 2 powi ?p = of_int (2 ^ nat (ilog2 y - ?p))"
    proof -
      have "B / 2 powi ?p = 2 powi (ilog2 y - ?p)"
        by (simp only: B_def p2_diff)
      also have "\<dots> = of_int (2 ^ nat (ilog2 y - ?p))"
        using lt q by (intro pow2_is_int) simp
      finally show ?thesis .
    qed
    have Bq: "B / 2 powi ?q = of_int (2 ^ nat (ilog2 y - ?q))"
    proof -
      have "B / 2 powi ?q = 2 powi (ilog2 y - ?q)"
        by (simp only: B_def p2_diff)
      also have "\<dots> = of_int (2 ^ nat (ilog2 y - ?q))"
        using q by (intro pow2_is_int) simp
      finally show ?thesis .
    qed
    have "x / 2 powi ?p \<le> B / 2 powi ?p"
      using xB by (simp add: divide_right_mono)
    then have "round_half_even (x / 2 powi ?p) \<le> 2 ^ nat (ilog2 y - ?p)"
      unfolding Bp by (rule round_half_even_le_int)
    then have "(of_int (round_half_even (x / 2 powi ?p)) :: rat) \<le> of_int (2 ^ nat (ilog2 y - ?p))"
      by (simp only: of_int_le_iff)
    then have "of_int (round_half_even (x / 2 powi ?p)) * 2 powi ?p \<le> (B / 2 powi ?p) * 2 powi ?p"
      unfolding Bp by (simp add: mult_right_mono)
    then have 1: "round_binary64 x \<le> B"
      by (simp add: round_binary64_pos [OF x])
    have "B / 2 powi ?q \<le> y / 2 powi ?q"
      using By by (simp add: divide_right_mono)
    then have "2 ^ nat (ilog2 y - ?q) \<le> round_half_even (y / 2 powi ?q)"
      unfolding Bq by (rule round_half_even_ge_int)
    then have "(of_int (2 ^ nat (ilog2 y - ?q)) :: rat) \<le> of_int (round_half_even (y / 2 powi ?q))"
      by (simp only: of_int_le_iff)
    then have "(B / 2 powi ?q) * 2 powi ?q \<le> of_int (round_half_even (y / 2 powi ?q)) * 2 powi ?q"
      unfolding Bq by (simp add: mult_right_mono)
    then have 2: "B \<le> round_binary64 y"
      by (simp add: round_binary64_pos [OF y])
    from 1 2 show ?thesis by simp
  qed
qed

lemma round_binary64_mono: 
  assumes "x \<le> y" and "0 < y"
  shows "round_binary64 x \<le> round_binary64 y"
proof (cases "0 < x")
  case True
  then show ?thesis using assms(1) by (rule round_binary64_mono_pos)
next
  case False
  then have "round_binary64 x \<le> 0" by (intro round_binary64_nonpos) simp
  moreover have "0 \<le> round_binary64 y" using assms(2) by (intro round_binary64_nonneg) simp
  ultimately show ?thesis by simp
qed

text \<open>Evaluation at a positive rational whose binade is known.\<close>

lemma round_half_even_frac:
  assumes "0 < d"
  shows "round_half_even (of_int n / of_int d) =
           (if 2 * (n mod d) < d then n div d
            else if d < 2 * (n mod d) then n div d + 1
            else if even (n div d) then n div d else n div d + 1)"
proof -
  have f: "\<lfloor>(of_int n / of_int d :: rat)\<rfloor> = n div d"
    by (simp add: floor_divide_of_int_eq)
  have "(of_int n :: rat) = of_int (n div d * d + n mod d)"
    by simp
  also have "\<dots> = of_int (n div d) * of_int d + of_int (n mod d)"
    by (simp only: of_int_add of_int_mult)
  finally have r: "(of_int n / of_int d :: rat) - of_int (n div d) = of_int (n mod d) / of_int d"
    using assms by (simp add: field_simps)
  have lt: "(of_int (n mod d) / of_int d < (1 / 2 :: rat)) = (2 * (n mod d) < d)"
  proof -
    have "(of_int (n mod d) / of_int d < (1 / 2 :: rat)) = ((of_int (2 * (n mod d)) :: rat) < of_int d)"
      using assms by (simp add: field_simps)
    then show ?thesis by (simp only: of_int_less_iff)
  qed
  have gt: "((1 / 2 :: rat) < of_int (n mod d) / of_int d) = (d < 2 * (n mod d))"
  proof -
    have "((1 / 2 :: rat) < of_int (n mod d) / of_int d) = ((of_int d :: rat) < of_int (2 * (n mod d)))"
      using assms by (simp add: field_simps)
    then show ?thesis by (simp only: of_int_less_iff)
  qed
  show ?thesis
    unfolding round_half_even_def Let_def f r lt gt by (rule refl)
qed

lemma round_half_even_numeral [simp]:
  "round_half_even (numeral n / numeral d) =
     (if 2 * (numeral n mod numeral d) < (numeral d :: int) then numeral n div numeral d
      else if numeral d < 2 * (numeral n mod numeral d :: int) then numeral n div numeral d + 1
      else if even (numeral n div numeral d :: int) then numeral n div numeral d
      else numeral n div numeral d + 1)"
  using round_half_even_frac [of "numeral d" "numeral n"] by simp

lemma round_half_even_numeral' [simp]: "round_half_even (numeral n) = numeral n"
  using round_half_even_of_int [of "numeral n"] by simp

lemma round_binary64_eval:
  assumes "2 powi e \<le> x" and "x < 2 powi (e + 1)"
  shows "round_binary64 x =
           of_int (round_half_even (x / 2 powi max (e - 52) (- 1074))) * 2 powi max (e - 52) (- 1074)"
proof -
  have pos: "0 < x"
    using assms(1) by (rule less_le_trans [rotated]) simp
  have "ilog2 x = e" using assms by (rule ilog2_unique)
  then show ?thesis
    by (simp add: round_binary64_pos [OF pos] ulp_exp_def)
qed

lemma floor_rat_numeral [simp]:
  "\<lfloor>(numeral n / numeral d :: rat)\<rfloor> = numeral n div numeral d"
  using floor_divide_of_int_eq [of "numeral n" "numeral d", where ?'a = rat] by simp

lemma float_max_value: "float_max = 179769313486231570814527423731704356798070567525844996598917476803157260780028538760589558632766878171540458953514382464234321326889464182768467546703537516986049910576551282076245490090389328944075868508455133942304583236903222948165808559332123348274797826204144723168738177180919299881250404026184124858368"
  by (simp add: float_max_def)

lemma float_max_ge_100: "100 \<le> float_max"
  by (simp add: float_max_value)

lemma percent_40_100: "percent_of (PInt 40) (PInt 100) = Inr 40"
proof -
  have a: "round_binary64 (2 / 5) = 3602879701896397 / 9007199254740992"
    by (subst round_binary64_eval [where e = "- 2"]) simp_all
  have b: "round_binary64 (3602879701896397 / 9007199254740992 * 100) = 40"
    by (subst round_binary64_eval [where e = 5]) simp_all
  have "int_truediv 40 100 = Inr (3602879701896397 / 9007199254740992)"
    by (simp add: int_truediv_def a float_max_value)
  moreover have "float_mul (3602879701896397 / 9007199254740992) 100 = Finite 40"
    unfolding float_mul_def b by (simp add: float_max_value)
  ultimately show ?thesis
    by (simp add: percent_of_def py_truediv_def py_int_def)
qed

lemma percent_101_200: "percent_of (PInt 101) (PInt 200) = Inr 50"
proof -
  have a: "round_binary64 (101 / 200) = 4548635623644201 / 9007199254740992"
    by (subst round_binary64_eval [where e = "- 1"]) simp_all
  have b: "round_binary64 (4548635623644201 / 9007199254740992 * 100) = 101 / 2"
    by (subst round_binary64_eval [where e = 5]) simp_all
  have "int_truediv 101 200 = Inr (4548635623644201 / 9007199254740992)"
    by (simp add: int_truediv_def a float_max_value)
  moreover have "float_mul (4548635623644201 / 9007199254740992) 100 = Finite (101 / 2)"
    unfolding float_mul_def b by (simp add: float_max_value)
  ultimately show ?thesis
    by (simp add: percent_of_def py_truediv_def py_int_def)
qed


lemma rb_half: "round_binary64 (1 / 2) = 1 / 2"
  by (subst round_binary64_eval [where e = "- 1"]) simp_all

lemma rb_50: "round_binary64 50 = 50"
  by (subst round_binary64_eval [where e = 5]) simp_all

lemma rb_51_100: "round_binary64 (51 / 100) = 4593671619917906 / 9007199254740992"
  by (subst round_binary64_eval [where e = "- 1"]) simp_all

lemma rb_51_100_100: "round_binary64 (4593671619917906 / 9007199254740992 * 100) = 51"
  by (subst round_binary64_eval [where e = 5]) simp_all

lemma percent_of_int:
  "percent_of (PInt hp) (PInt max_hp) =
     (if max_hp = 0 then Inl ZeroDivisionError
      else if float_max < \<bar>round_binary64 (of_int hp / of_int max_hp)\<bar> then Inl OverflowError
      else py_int (float_mul (round_binary64 (of_int hp / of_int max_hp)) 100))"
  by (simp add: percent_of_def py_truediv_def int_truediv_def Let_def)

lemma py_int_Inr: "py_int f = Inr n \<Longrightarrow> \<exists>r. f = Finite r \<and> n = (if 0 \<le> r then \<lfloor>r\<rfloor> else \<lceil>r\<rceil>)"
  by (cases f) (simp_all add: py_int_def)

lemma float_mul_Finite: "float_mul x y = Finite r \<Longrightarrow> r = round_binary64 (x * y)"
  by (simp add: float_mul_def Let_def split: if_splits)

lemma percent_of_Inr:
  assumes "percent_of (PInt hp) (PInt max_hp) = Inr n"
  shows "max_hp \<noteq> 0"
    and "n = (let r = round_binary64 (round_binary64 (of_int hp / of_int max_hp) * 100)
              in if 0 \<le> r then \<lfloor>r\<rfloor> else \<lceil>r\<rceil>)"
proof -
  show m: "max_hp \<noteq> 0"
    using assms by (auto simp: percent_of_int)
  from assms m have "py_int (float_mul (round_binary64 (of_int hp / of_int max_hp)) 100) = Inr n"
    by (simp add: percent_of_int split: if_splits)
  then obtain r where r: "float_mul (round_binary64 (of_int hp / of_int max_hp)) 100 = Finite r"
    and n: "n = (if 0 \<le> r then \<lfloor>r\<rfloor> else \<lceil>r\<rceil>)"
    using py_int_Inr by blast
  from float_mul_Finite [OF r] n
  show "n = (let r = round_binary64 (round_binary64 (of_int hp / of_int max_hp) * 100)
              in if 0 \<le> r then \<lfloor>r\<rfloor> else \<lceil>r\<rceil>)"
    by (simp add: Let_def)
qed

lemma percent_of_le_50:
  assumes "0 < max_hp" and "2 * hp \<le> max_hp" and "percent_of (PInt hp) (PInt max_hp) = Inr n"
  shows "n \<le> 50"
proof -
  let ?q = "of_int hp / of_int max_hp :: rat"
  have "(of_int (2 * hp) :: rat) \<le> of_int max_hp"
    using assms(2) by (simp only: of_int_le_iff)
  then have "?q \<le> 1 / 2"
    using assms(1) by (simp add: field_simps)
  then have "round_binary64 ?q \<le> round_binary64 (1 / 2)"
    by (rule round_binary64_mono) simp
  then have "round_binary64 ?q * 100 \<le> 50"
    by (simp add: rb_half)
  then have "round_binary64 (round_binary64 ?q * 100) \<le> round_binary64 50"
    by (rule round_binary64_mono) simp
  then have r: "round_binary64 (round_binary64 ?q * 100) \<le> 50"
    by (simp add: rb_50)
  have fl: "\<lfloor>round_binary64 (round_binary64 ?q * 100)\<rfloor> \<le> 50"
    using r by (simp add: floor_le_iff)
  have ce: "round_binary64 (round_binary64 ?q * 100) < 0
            \<Longrightarrow> \<lceil>round_binary64 (round_binary64 ?q * 100)\<rceil> \<le> 50"
    by (simp add: ceiling_le_iff)
  show ?thesis
    using percent_of_Inr(2) [OF assms(3)] fl ce by (simp add: Let_def split: if_splits)
qed

lemma percent_of_ge_51:
  assumes "0 < max_hp" and "51 * max_hp \<le> 100 * hp" and "percent_of (PInt hp) (PInt max_hp) = Inr n"
  shows "51 \<le> n"
proof -
  let ?q = "of_int hp / of_int max_hp :: rat"
  have "(of_int (51 * max_hp) :: rat) \<le> of_int (100 * hp)"
    using assms(2) by (simp only: of_int_le_iff)
  then have q: "51 / 100 \<le> ?q"
    using assms(1) by (simp add: field_simps)
  have qpos: "0 < ?q"
    using q by (rule less_le_trans [rotated]) simp
  from q qpos have "round_binary64 (51 / 100) \<le> round_binary64 ?q"
    by (rule round_binary64_mono)
  then have d: "4593671619917906 / 9007199254740992 \<le> round_binary64 ?q"
    by (simp only: rb_51_100)
  then have "4593671619917906 / 9007199254740992 * 100 \<le> round_binary64 ?q * 100"
    by simp
  moreover have "0 < round_binary64 ?q * 100"
    using d by (simp add: less_le_trans [rotated])
  ultimately have "round_binary64 (4593671619917906 / 9007199254740992 * 100)
             \<le> round_binary64 (round_binary64 ?q * 100)"
    by (rule round_binary64_mono)
  then have r: "51 \<le> round_binary64 (round_binary64 ?q * 100)"
    by (simp only: rb_51_100_100)
  then have "51 \<le> \<lfloor>round_binary64 (round_binary64 ?q * 100)\<rfloor>"
    by (simp add: le_floor_iff)
  then show ?thesis
    using percent_of_Inr(2) [OF assms(3)] r by (simp add: Let_def)
qed


lemma rb_1: "round_binary64 1 = 1"
  by (subst round_binary64_eval [where e = 0]) simp_all

lemma rb_100: "round_binary64 100 = 100"
  by (subst round_binary64_eval [where e = 6]) simp_all

lemma hud_percent_in_range:
  assumes "0 < max_hp" and "0 \<le> hp" and "hp \<le> max_hp"
  shows "\<exists>n. hud_percent (PInt hp) (PInt max_hp) = Inr n \<and> 0 \<le> n \<and> n \<le> 100"
proof -
  let ?q = "of_int hp / of_int max_hp :: rat"
  let ?r = "round_binary64 ?q"
  let ?s = "round_binary64 (?r * 100)"
  have q0: "0 \<le> ?q" using assms by simp
  have "(of_int hp :: rat) \<le> of_int max_hp"
    using assms(3) by (simp only: of_int_le_iff)
  then have q1: "?q \<le> 1" using assms(1) by (simp add: field_simps)
  have r0: "0 \<le> ?r" using q0 by (rule round_binary64_nonneg)
  have "?r \<le> round_binary64 1" using q1 by (rule round_binary64_mono) simp
  then have r1: "?r \<le> 1" by (simp add: rb_1)
  have s0: "0 \<le> ?s" using r0 by (intro round_binary64_nonneg) simp
  have "?r * 100 \<le> 100" using r1 by simp
  then have "?s \<le> round_binary64 100" by (rule round_binary64_mono) simp
  then have s1: "?s \<le> 100" by (simp add: rb_100)
  have a: "\<not> float_max < \<bar>?r\<bar>"
    using r0 r1 float_max_ge_100 by simp
  have b: "float_mul ?r 100 = Finite ?s"
    using s0 s1 float_max_ge_100 by (simp add: float_mul_def Let_def)
  have "percent_of (PInt hp) (PInt max_hp) = Inr \<lfloor>?s\<rfloor>"
    using assms(1) a b s0 by (simp add: percent_of_int py_int_def)
  moreover have "0 \<le> \<lfloor>?s\<rfloor>" using s0 by simp
  moreover have "\<lfloor>?s\<rfloor> \<le> 100" using s1 by (simp add: floor_le_iff)
  ultimately show ?thesis
    by (simp add: hud_percent_def)
qed

section \<open>The HUD\<close>

lemma hud_percent_Inr:
  "hud_percent hp max_hp = Inr n \<Longrightarrow> \<exists>k. percent_of hp max_hp = Inr k \<and> n = min 100 (max 0 k)"
  by (auto simp: hud_percent_def split: sum.splits)

lemma format_fault_PStr [simp]: "format_fault w (PStr s) = None"
  by (simp add: format_fault_def)

lemma format_fault_PInt:
  "format_fault w (PInt i) =
     (if 0 < int_max_str_digits w \<and> 10 ^ int_max_str_digits w \<le> \<bar>i\<bar> then Some ValueError else None)"
  by (simp add: format_fault_def)

lemma small_int_formats:
  assumes "int_max_str_digits w = 4300" and "\<bar>i\<bar> < 1000"
  shows "format_fault w (PInt i) = None"
proof -
  have "(10::int) ^ 3 \<le> 10 ^ int_max_str_digits w"
    unfolding assms(1) by (rule power_increasing) simp_all
  moreover have "(10::int) ^ 3 = 1000" by simp
  ultimately have "\<bar>i\<bar> < 10 ^ int_max_str_digits w"
    using assms(2) by linarith
  then have "\<not> 10 ^ int_max_str_digits w \<le> \<bar>i\<bar>"
    by (simp only: not_le)
  then show ?thesis
    by (simp only: format_fault_PInt simp_thms if_False)
qed

lemma render_hud_jupyter_returns:
  "fst (render_hud JUPYTER player w) = Inr () \<longleftrightarrow>
     (\<exists>n. hud_percent (dict_get (heap w player) ''hp'' (PInt 100))
                       (dict_get (heap w player) ''max_hp'' (PInt 100)) = Inr n)
     \<and> format_faults w [dict_get (heap w player) ''name'' (PStr ''Player''),
                        dict_get (heap w player) ''hp'' (PInt 100),
                        dict_get (heap w player) ''max_hp'' (PInt 100),
                        dict_get (heap w player) ''gold'' (PInt 0)] = None"
  by (simp add: render_hud_def Let_def split: sum.splits option.splits)

lemma render_hud_jupyter_displays:
  assumes "hud_percent (dict_get (heap w player) ''hp'' (PInt 100))
                       (dict_get (heap w player) ''max_hp'' (PInt 100)) = Inr n"
      and "format_faults w [dict_get (heap w player) ''name'' (PStr ''Player''),
                        dict_get (heap w player) ''hp'' (PInt 100),
                        dict_get (heap w player) ''max_hp'' (PInt 100),
                        dict_get (heap w player) ''gold'' (PInt 0)] = None"
  shows "render_hud JUPYTER player w =
           (Inr (), display (Display_HTML
              (hud_html (dict_get (heap w player) ''name'' (PStr ''Player''))
                 (if 50 < n then ''#00C851'' else ''#ff4444'') n
                 (dict_get (heap w player) ''hp'' (PInt 100))
                 (dict_get (heap w player) ''max_hp'' (PInt 100))
                 (dict_get (heap w player) ''gold'' (PInt 0)))) w)"
  using assms by (simp add: render_hud_def Let_def hud_color_def render_html_def)

text \<open>
  Claim C6, as amended. In JUPYTER mode, for a player with integer hp and max_hp > 0 on
  which \<^verbatim>\<open>render_hud\<close> returns normally, that is, the percentage
  \<^verbatim>\<open>min(100, max(0, int(hp / max_hp * 100)))\<close> is computed and the name, hp, max_hp and
  gold are formatted without an exception, \<^verbatim>\<open>render_hud\<close> colours the HP bar by a
  two-level rule on that integer percentage: green exactly when it exceeds 50, red
  otherwise. A green bar implies an hp fraction above 50 percent, and a fraction of at least
  51 percent implies a green bar. With hp 40 of 100 the bar is red, while the stat panel
  colours the value 40 orange.
\<close>

theorem render_hud_two_level:
  "(dict_get (heap w player) ''hp'' (PInt 100) = PInt hp \<longrightarrow>
    dict_get (heap w player) ''max_hp'' (PInt 100) = PInt max_hp \<longrightarrow>
    0 < max_hp \<longrightarrow>
    fst (render_hud JUPYTER player w) = Inr () \<longrightarrow>
      (\<exists>hp_percent.
         hud_percent (PInt hp) (PInt max_hp) = Inr hp_percent
         \<and> render_hud JUPYTER player w =
             (Inr (), display (Display_HTML
                (hud_html (dict_get (heap w player) ''name'' (PStr ''Player''))
                   (if 50 < hp_percent then ''#00C851'' else ''#ff4444'') hp_percent
                   (PInt hp) (PInt max_hp) (dict_get (heap w player) ''gold'' (PInt 0)))) w)
         \<and> (50 < hp_percent \<longrightarrow> max_hp < 2 * hp)
         \<and> (51 * max_hp \<le> 100 * hp \<longrightarrow> 50 < hp_percent)))
   \<and> (fst (render_hud JUPYTER player w) = Inr () \<longleftrightarrow>
        (\<exists>n. hud_percent (dict_get (heap w player) ''hp'' (PInt 100))
                          (dict_get (heap w player) ''max_hp'' (PInt 100)) = Inr n)
        \<and> format_faults w [dict_get (heap w player) ''name'' (PStr ''Player''),
                           dict_get (heap w player) ''hp'' (PInt 100),
                           dict_get (heap w player) ''max_hp'' (PInt 100),
                           dict_get (heap w player) ''gold'' (PInt 0)] = None)
   \<and> hud_percent (PInt 40) (PInt 100) = Inr 40
   \<and> hud_color 40 = ''#ff4444''
   \<and> get_bar_color (PInt 40) = Inr ''#ffbb33''"
proof (intro conjI impI)
  assume hp: "dict_get (heap w player) ''hp'' (PInt 100) = PInt hp"
    and mx: "dict_get (heap w player) ''max_hp'' (PInt 100) = PInt max_hp"
    and pos: "0 < max_hp"
    and ret: "fst (render_hud JUPYTER player w) = Inr ()"
  from ret obtain hp_percent
    where pc: "hud_percent (PInt hp) (PInt max_hp) = Inr hp_percent"
      and ff: "format_faults w [dict_get (heap w player) ''name'' (PStr ''Player''),
                        dict_get (heap w player) ''hp'' (PInt 100),
                        dict_get (heap w player) ''max_hp'' (PInt 100),
                        dict_get (heap w player) ''gold'' (PInt 0)] = None"
    unfolding render_hud_jupyter_returns hp mx by blast
  have pc': "hud_percent (dict_get (heap w player) ''hp'' (PInt 100))
                       (dict_get (heap w player) ''max_hp'' (PInt 100)) = Inr hp_percent"
    using pc hp mx by simp
  have shown: "render_hud JUPYTER player w =
        (Inr (), display (Display_HTML
           (hud_html (dict_get (heap w player) ''name'' (PStr ''Player''))
              (if 50 < hp_percent then ''#00C851'' else ''#ff4444'') hp_percent
              (PInt hp) (PInt max_hp) (dict_get (heap w player) ''gold'' (PInt 0)))) w)"
    using render_hud_jupyter_displays [OF pc' ff] hp mx by simp
  from hud_percent_Inr [OF pc] obtain k
    where k: "percent_of (PInt hp) (PInt max_hp) = Inr k" and n: "hp_percent = min 100 (max 0 k)"
    by blast
  have up: "max_hp < 2 * hp" if "50 < hp_percent"
  proof (rule ccontr)
    assume "\<not> max_hp < 2 * hp"
    then have "2 * hp \<le> max_hp" by simp
    from percent_of_le_50 [OF pos this k] have "k \<le> 50" .
    with n that show False by simp
  qed
  have down: "50 < hp_percent" if "51 * max_hp \<le> 100 * hp"
    using percent_of_ge_51 [OF pos that k] n by simp
  show "\<exists>hp_percent.
         hud_percent (PInt hp) (PInt max_hp) = Inr hp_percent
         \<and> render_hud JUPYTER player w =
             (Inr (), display (Display_HTML
                (hud_html (dict_get (heap w player) ''name'' (PStr ''Player''))
                   (if 50 < hp_percent then ''#00C851'' else ''#ff4444'') hp_percent
                   (PInt hp) (PInt max_hp) (dict_get (heap w player) ''gold'' (PInt 0)))) w)
         \<and> (50 < hp_percent \<longrightarrow> max_hp < 2 * hp)
         \<and> (51 * max_hp \<le> 100 * hp \<longrightarrow> 50 < hp_percent)"
    using pc shown up down by blast
next
  show "fst (render_hud JUPYTER player w) = Inr () \<longleftrightarrow>
        (\<exists>n. hud_percent (dict_get (heap w player) ''hp'' (PInt 100))
                          (dict_get (heap w player) ''max_hp'' (PInt 100)) = Inr n)
        \<and> format_faults w [dict_get (heap w player) ''name'' (PStr ''Player''),
                           dict_get (heap w player) ''hp'' (PInt 100),
                           dict_get (heap w player) ''max_hp'' (PInt 100),
                           dict_get (heap w player) ''gold'' (PInt 0)] = None"
    by (rule render_hud_jupyter_returns)
next
  show "hud_percent (PInt 40) (PInt 100) = Inr 40"
    by (simp add: hud_percent_def percent_40_100)
next
  show "hud_color 40 = ''#ff4444''"
    by (simp add: hud_color_def)
next
  show "get_bar_color (PInt 40) = Inr ''#ffbb33''"
    by (simp add: get_bar_color_int)
qed

lemma hero_formats:
  "format_faults (empty_world\<lparr>heap := h\<rparr>) [PStr s, PInt 40, PInt 100, PInt 50] = None"
proof -
  have "int_max_str_digits (empty_world\<lparr>heap := h\<rparr>) = 4300"
    by (simp add: empty_world_def)
  then show ?thesis
    by (simp add: small_int_formats)
qed

theorem render_hud_two_level_witness:
  "render_hud JUPYTER 0 (empty_world\<lparr>heap := (\<lambda>_. [])(0 := hero)\<rparr>) =
     (Inr (), display (Display_HTML
        (hud_html (PStr ''Hero'') ''#ff4444'' 40 (PInt 40) (PInt 100) (PInt 50)))
        (empty_world\<lparr>heap := (\<lambda>_. [])(0 := hero)\<rparr>))"
proof -
  let ?w = "empty_world\<lparr>heap := (\<lambda>_. [])(0 := hero)\<rparr>"
  have a: "dict_get (heap ?w 0) ''hp'' (PInt 100) = PInt 40"
    by (simp add: hero_def dict_get_def)
  have b: "dict_get (heap ?w 0) ''max_hp'' (PInt 100) = PInt 100"
    by (simp add: hero_def dict_get_def)
  have c: "(0::int) < 100" by simp
  have d: "hud_percent (PInt 40) (PInt 100) = Inr 40"
    by (simp add: hud_percent_def percent_40_100)
  have n: "dict_get (heap ?w 0) ''name'' (PStr ''Player'') = PStr ''Hero''"
    by (simp add: hero_def dict_get_def)
  have g: "dict_get (heap ?w 0) ''gold'' (PInt 0) = PInt 50"
    by (simp add: hero_def dict_get_def)
  have ff: "format_faults ?w [PStr ''Hero'', PInt 40, PInt 100, PInt 50] = None"
    by (rule hero_formats)
  have e: "fst (render_hud JUPYTER 0 ?w) = Inr ()"
    unfolding render_hud_jupyter_returns a b n g using d ff by blast
  from render_hud_two_level [of ?w 0 40 100] a b c e
  obtain hp_percent where
    "hud_percent (PInt 40) (PInt 100) = Inr hp_percent"
    "render_hud JUPYTER 0 ?w =
        (Inr (), display (Display_HTML
           (hud_html (dict_get (heap ?w 0) ''name'' (PStr ''Player''))
              (if 50 < hp_percent then ''#00C851'' else ''#ff4444'') hp_percent
              (PInt 40) (PInt 100) (dict_get (heap ?w 0) ''gold'' (PInt 0)))) ?w)"
    by blast
  then show ?thesis
    using d by (simp add: hero_def dict_get_def)
qed


text \<open>
  The rule is not "green exactly when the fraction exceeds 50 percent": 101 of 200 is 50.5
  percent, the integer percentage is 50, and the bar is red.
\<close>

theorem render_hud_fraction_counterexample:
  "(200::int) < 2 * 101
   \<and> render_hud JUPYTER 0
        (empty_world\<lparr>heap := (\<lambda>_. [])(0 := [(''name'', PStr ''Hero''), (''hp'', PInt 101),
                                             (''max_hp'', PInt 200)])\<rparr>) =
       (Inr (), display (Display_HTML
          (hud_html (PStr ''Hero'') ''#ff4444'' 50 (PInt 101) (PInt 200) (PInt 0)))
          (empty_world\<lparr>heap := (\<lambda>_. [])(0 := [(''name'', PStr ''Hero''), (''hp'', PInt 101),
                                               (''max_hp'', PInt 200)])\<rparr>))"
  by (simp add: render_hud_def Let_def dict_get_def hud_percent_def percent_101_200 hud_color_def
      render_html_def small_int_formats empty_world_def)

text \<open>
  Claim C2 fails on the code. With \<^verbatim>\<open>max_hp\<close> equal to 0, \<^verbatim>\<open>render_hud\<close> in JUPYTER
  mode raises \<^verbatim>\<open>ZeroDivisionError\<close> from \<^verbatim>\<open>hp / max_hp\<close> and displays nothing; the
  card of the dashboard computes the same percentage behind the guard
  \<^verbatim>\<open>if max_hp > 0 else 0\<close> and gives 0.
\<close>

theorem render_hud_zero_max_hp_raises:
  "render_hud JUPYTER 0
     (empty_world\<lparr>heap := (\<lambda>_. [])(0 := [(''name'', PStr ''Hero''), (''hp'', PInt 40),
                                          (''max_hp'', PInt 0), (''gold'', PInt 50)])\<rparr>) =
   (Inl ZeroDivisionError,
    empty_world\<lparr>heap := (\<lambda>_. [])(0 := [(''name'', PStr ''Hero''), (''hp'', PInt 40),
                                         (''max_hp'', PInt 0), (''gold'', PInt 50)])\<rparr>)
   \<and> card_percent (PInt 40) (PInt 0) = Inr 0"
  by (simp add: render_hud_def Let_def dict_get_def hud_percent_def percent_of_int
      card_percent_def py_greater_int_def)

lemma oversized_pos: "0 < oversized"
  unfolding oversized_def by (rule zero_less_power) simp

lemma oversized_fault:
  assumes "int_max_str_digits w = 4300"
  shows "format_fault w (PInt oversized) = Some ValueError"
proof -
  have "\<bar>oversized\<bar> = oversized"
    using oversized_pos by simp
  moreover have "10 ^ int_max_str_digits w = oversized"
    unfolding assms oversized_def by (rule refl)
  moreover have "0 < int_max_str_digits w"
    unfolding assms by simp
  ultimately show ?thesis
    by (simp only: format_fault_PInt simp_thms if_True order_refl)
qed

lemma percent_oversized: "percent_of (PInt oversized) (PInt (10 * oversized)) = Inr 10"
proof -
  have q: "(of_int oversized :: rat) / of_int (10 * oversized) = 1 / 10"
    using oversized_pos by simp
  have a: "round_binary64 (1 / 10) = 3602879701896397 / 36028797018963968"
    by (subst round_binary64_eval [where e = "- 4"]) simp_all
  have b: "round_binary64 (3602879701896397 / 36028797018963968 * 100) = 10"
    by (subst round_binary64_eval [where e = 3]) simp_all
  have nz: "10 * oversized \<noteq> 0"
    using oversized_pos by simp
  have "float_mul (3602879701896397 / 36028797018963968) 100 = Finite 10"
    unfolding float_mul_def b by (simp add: float_max_value)
  then show ?thesis
    unfolding percent_of_int q a using nz by (simp add: float_max_value py_int_def)
qed

text \<open>
  Formatting is not guarded either. With hp \<open>10 ^ 4300\<close> and max_hp \<open>10 ^ 4301\<close> the
  percentage is computed (it is 10), and then the f-string raises \<^verbatim>\<open>ValueError\<close>
  on hp, an integer of more digits than the limit: in JUPYTER mode nothing is displayed, in
  TERMINAL mode only the first line is printed.
\<close>

theorem render_hud_oversized_integer_raises:
  "hud_percent (PInt oversized) (PInt (10 * oversized)) = Inr 10
   \<and> render_hud JUPYTER 0
        (empty_world\<lparr>heap := (\<lambda>_. [])(0 := [(''name'', PStr ''Hero''), (''hp'', PInt oversized),
                                             (''max_hp'', PInt (10 * oversized))])\<rparr>) =
       (Inl ValueError,
        empty_world\<lparr>heap := (\<lambda>_. [])(0 := [(''name'', PStr ''Hero''), (''hp'', PInt oversized),
                                             (''max_hp'', PInt (10 * oversized))])\<rparr>)
   \<and> render_hud TERMINAL 0
        (empty_world\<lparr>heap := (\<lambda>_. [])(0 := [(''name'', PStr ''Hero''), (''hp'', PInt oversized),
                                             (''max_hp'', PInt (10 * oversized))])\<rparr>) =
       (Inl ValueError,
        py_print [Lit ''--- HUD ---'']
          (empty_world\<lparr>heap := (\<lambda>_. [])(0 := [(''name'', PStr ''Hero''), (''hp'', PInt oversized),
                                               (''max_hp'', PInt (10 * oversized))])\<rparr>))"
proof -
  let ?w = "empty_world\<lparr>heap := (\<lambda>_. [])(0 := [(''name'', PStr ''Hero''), (''hp'', PInt oversized),
                                             (''max_hp'', PInt (10 * oversized))])\<rparr>"
  have p: "hud_percent (PInt oversized) (PInt (10 * oversized)) = Inr 10"
    by (simp add: hud_percent_def percent_oversized)
  have d: "int_max_str_digits ?w = 4300" "int_max_str_digits (py_print s ?w) = 4300" for s
    by (simp_all add: empty_world_def)
  have f: "format_fault ?w (PInt oversized) = Some ValueError"
          "format_fault (py_print s ?w) (PInt oversized) = Some ValueError" for s
    using d by (simp_all only: oversized_fault)
  have pl: "print_line [Lit ''--- HUD ---''] ?w = (Inr (), py_print [Lit ''--- HUD ---''] ?w)"
    by (simp add: print_line_def empty_world_def)
  have j: "render_hud JUPYTER 0 ?w = (Inl ValueError, ?w)"
    by (simp add: render_hud_def Let_def dict_get_def p f)
  have t: "render_hud TERMINAL 0 ?w = (Inl ValueError, py_print [Lit ''--- HUD ---''] ?w)"
    by (simp add: render_hud_def pl Let_def dict_get_def f)
  from p j t show ?thesis by blast
qed

section \<open>The dashboard\<close>








section \<open>Sound\<close>






section \<open>Which operations raise, and when\<close>

lemma save_pet_returns:
  assumes "\<forall>s. stdout_fault w s = None"
  shows "fst (save_pet json_dump pet_data filename w) = Inr ()"
proof -
  have pl: "\<And>s w'. stdout_fault w' = stdout_fault w \<Longrightarrow> print_line s w' = (Inr (), py_print s w')"
    using assms by (simp add: print_line_def)
  have ow: "\<And>w'. open_write w [[Fmt (PStr filename)]] = Inr w' \<Longrightarrow> stdout_fault w' = stdout_fault w"
    by (auto simp: open_write_def split: node.splits sum.splits if_splits)
  have wt: "\<And>w' c r w''. write_text [[Fmt (PStr filename)]] c w' = (r, w'')
              \<Longrightarrow> stdout_fault w'' = stdout_fault w'"
    by (auto simp: write_text_def split: node.splits option.splits prod.splits)
  show ?thesis
    by (auto simp: save_pet_def pl split: sum.splits prod.splits option.splits
        dest!: ow wt)
qed

lemma play_sound_returns:
  assumes "\<forall>s. stdout_fault w s = None"
  shows "fst (play_sound MODE sound_name w) = Inr ()"
  using assms
  by (simp add: play_sound_def Let_def print_line_def py_print_def display_def
      split: option.splits)

text \<open>
  The operations that wrap their work in \<^verbatim>\<open>try\<close> and print in the handler
  (\<^verbatim>\<open>save_pet\<close>, \<^verbatim>\<open>load_pet\<close>, \<^verbatim>\<open>play_sound\<close>) return normally in both modes on a
  console that accepts every line, whatever the file system, the codec and the display
  surface do.
\<close>

theorem caught_operations_return_on_accepting_console:
  assumes "\<forall>s. stdout_fault w s = None"
  shows "fst (save_pet json_dump pet_data filename w) = Inr ()
         \<and> (\<exists>v. fst (load_pet json_load filename w) = Inr v)
         \<and> fst (play_sound MODE sound_name w) = Inr ()"
  using assms save_pet_returns load_pet_returns play_sound_returns by blast

theorem caught_operations_return_on_accepting_console_witness:
  "fst (save_pet byte_dump 0 ''saves''
          (empty_world\<lparr>nodes := (nodes empty_world)([[Fmt (PStr ''saves'')]] := Directory)\<rparr>)) = Inr ()
   \<and> fst (play_sound JUPYTER ''not_a_real_tag'' empty_world) = Inr ()"
proof -
  let ?w = "empty_world\<lparr>nodes := (nodes empty_world)([[Fmt (PStr ''saves'')]] := Directory)\<rparr>"
  have a: "\<forall>s. stdout_fault ?w s = None" by (simp add: empty_world_def)
  have b: "\<forall>s. stdout_fault empty_world s = None" by (simp add: empty_world_def)
  from caught_operations_return_on_accepting_console
         [OF a, where json_dump = byte_dump and pet_data = 0 and filename = "''saves''"]
       caught_operations_return_on_accepting_console
         [OF b, where MODE = JUPYTER and sound_name = "''not_a_real_tag''"]
  show ?thesis by blast
qed

text \<open>
  No field is validated: in JUPYTER mode the stat panel compares every value with 20, so a
  value that is text raises \<^verbatim>\<open>TypeError\<close> and nothing is displayed.
\<close>

theorem stat_panel_raises_on_text:
  "show_stats JUPYTER (PStr ''Byte'') (PStr ''full'') (PInt 30) PNone empty_world =
     (Inl TypeError, empty_world)"
  by (simp add: show_stats_def create_bar_html_def get_bar_color_def py_less_int_def)


end
